theory Spec2Isabelle
  imports Main "HOL-Library.Sublist"
begin

section \<open>Single fetch: the client-side data strategy\<close>

text \<open>
  The development embeds the functions of the single-fetch data strategy
  (\<^verbatim>\<open>getSingleFetchDataStrategy\<close>, \<^verbatim>\<open>stripIndexParam\<close>, \<^verbatim>\<open>addRevalidationParam\<close>,
  \<^verbatim>\<open>singleFetchUrl\<close>, \<^verbatim>\<open>fetchAndDecode\<close>, \<^verbatim>\<open>unwrapSingleFetchResult\<close>) and proves the
  properties stated for them.
\<close>

subsection \<open>URLs and their search parameters\<close>

text \<open>
  A \<^verbatim>\<open>URL\<close> object is modelled by the components the code reads and writes: the origin,
  the path, the list of decoded query pairs held by \<^verbatim>\<open>url.searchParams\<close> (order and
  duplicates matter) and the fragment. \<^verbatim>\<open>new URL(s)\<close> and \<^verbatim>\<open>url.href\<close> are the platform's
  parser and serialiser; the functions below work on the parsed form, so a string that
  is passed from one of them to the next is the record itself.
\<close>

record url =
  origin :: string
  pathname :: string
  searchParams :: "(string \<times> string) list"
  hash :: string

text \<open>\<^verbatim>\<open>URLSearchParams.getAll(name)\<close>: the values of every pair called \<open>name\<close>, in order.\<close>

definition searchParams_getAll :: "string \<Rightarrow> (string \<times> string) list \<Rightarrow> string list" where
  "searchParams_getAll name ps = map snd (filter (\<lambda>p. fst p = name) ps)"

text \<open>\<^verbatim>\<open>URLSearchParams.delete(name)\<close>: removes every pair called \<open>name\<close>.\<close>

definition searchParams_delete :: "string \<Rightarrow> (string \<times> string) list \<Rightarrow> (string \<times> string) list" where
  "searchParams_delete name ps = filter (\<lambda>p. fst p \<noteq> name) ps"

text \<open>\<^verbatim>\<open>URLSearchParams.append(name, value)\<close>: adds a pair at the end.\<close>

definition searchParams_append ::
  "string \<Rightarrow> string \<Rightarrow> (string \<times> string) list \<Rightarrow> (string \<times> string) list" where
  "searchParams_append name v ps = ps @ [(name, v)]"

text \<open>
  \<^verbatim>\<open>URLSearchParams.set(name, value)\<close>: when a pair called \<open>name\<close> exists, the first one
  takes the value and the others are removed; otherwise the pair is appended.
\<close>

fun searchParams_set ::
  "string \<Rightarrow> string \<Rightarrow> (string \<times> string) list \<Rightarrow> (string \<times> string) list" where
  "searchParams_set name v [] = [(name, v)]"
| "searchParams_set name v (p # ps) =
     (if fst p = name then (name, v) # searchParams_delete name ps
      else p # searchParams_set name v ps)"

text \<open>
  The \<^verbatim>\<open>pathname\<close> setter parses its argument as a path, which for a hierarchical URL
  puts a slash in front of a value that has none. Percent-encoding and dot segments are
  not modelled: the values assigned here are a parsed path with a suffix, or a literal.
\<close>

definition set_pathname :: "string \<Rightarrow> url \<Rightarrow> url" where
  "set_pathname p u =
     u\<lparr>pathname := (case p of [] \<Rightarrow> ''/'' | c # cs \<Rightarrow> if c = CHR ''/'' then p else CHR ''/'' # p)\<rparr>"

subsection \<open>\<^verbatim>\<open>stripIndexParam\<close>\<close>

text \<open>
  The first loop of \<^verbatim>\<open>stripIndexParam\<close>: push every truthy (non-empty) value onto
  \<^verbatim>\<open>indexValuesToKeep\<close>.
\<close>

fun indexValuesToKeep :: "string list \<Rightarrow> string list \<Rightarrow> string list" where
  "indexValuesToKeep keep [] = keep"
| "indexValuesToKeep keep (indexValue # indexValues) =
     indexValuesToKeep (if indexValue \<noteq> [] then keep @ [indexValue] else keep) indexValues"

text \<open>The second loop: append every kept value as an \<^verbatim>\<open>index\<close> pair.\<close>

fun appendIndexValues :: "string list \<Rightarrow> (string \<times> string) list \<Rightarrow> (string \<times> string) list" where
  "appendIndexValues [] ps = ps"
| "appendIndexValues (toKeep # rest) ps =
     appendIndexValues rest (searchParams_append ''index'' toKeep ps)"

definition stripIndexParam :: "url \<Rightarrow> url" where
  "stripIndexParam u =
     (let indexValues = searchParams_getAll ''index'' (searchParams u);
          ps = searchParams_delete ''index'' (searchParams u);
          keep = indexValuesToKeep [] indexValues
      in u\<lparr>searchParams := appendIndexValues keep ps\<rparr>)"

subsection \<open>JavaScript values\<close>

text \<open>
  The values the code handles at type \<^verbatim>\<open>unknown\<close>, throws, or returns: primitives, plain
  objects (own data properties, in order), instances of \<^verbatim>\<open>Error\<close>, \<^verbatim>\<open>TypeError\<close>,
  \<^verbatim>\<open>RangeError\<close> and \<^verbatim>\<open>SyntaxError\<close> with their message, an instance of the router's
  \<^verbatim>\<open>ErrorResponseImpl\<close> with the fields it stores (\<^verbatim>\<open>status\<close>, \<^verbatim>\<open>statusText\<close>, \<^verbatim>\<open>data\<close>,
  \<^verbatim>\<open>internal\<close> and the optional \<^verbatim>\<open>error\<close>), and a body-less \<^verbatim>\<open>Response\<close> with its status
  and headers. A number is an integer here, and a character of a string is one code unit
  below 256. A function that may throw returns \<open>jsval + 'a\<close>, with \<open>Inl\<close> the thrown
  value.
\<close>

datatype jsval =
    Undefined
  | Null
  | Bool bool
  | Num int
  | Str string
  | Obj "(string \<times> jsval) list"
  | Error string
  | TypeError string
  | RangeError string
  | SyntaxError string
  | ErrorResponseImpl jsval jsval jsval bool "jsval option"
  | Response int "(string \<times> string) list"

text \<open>
  The manifest, the route modules and the decoded results are plain objects, and the code
  reads them by indexing, \<^verbatim>\<open>obj[key]\<close>. Indexing finds an own property first and then the
  members every plain object inherits from \<^verbatim>\<open>Object.prototype\<close>: functions, and for
  \<^verbatim>\<open>__proto__\<close> the prototype object itself. None of them is \<^verbatim>\<open>undefined\<close>, and none has
  a property that the code reads.
\<close>

definition Object_prototype_members :: "string list" where
  "Object_prototype_members =
     [''constructor'', ''__defineGetter__'', ''__defineSetter__'', ''hasOwnProperty'',
      ''__lookupGetter__'', ''__lookupSetter__'', ''isPrototypeOf'', ''propertyIsEnumerable'',
      ''toString'', ''valueOf'', ''__proto__'', ''toLocaleString'']"

subsection \<open>Routes, manifest and matches\<close>

text \<open>
  \<^verbatim>\<open>manifest.routes\<close> maps a route id to its entry, of which the code reads \<^verbatim>\<open>hasLoader\<close>;
  \<^verbatim>\<open>routeModules\<close> maps a route id to its module, of which the code reads whether
  \<^verbatim>\<open>shouldRevalidate\<close> is defined; a match carries \<^verbatim>\<open>route.id\<close> and \<^verbatim>\<open>shouldLoad\<close>.
\<close>

record entry_route =
  hasLoader :: bool

record assets_manifest =
  routes :: "string \<rightharpoonup> entry_route"

record 'h route_module =
  shouldRevalidate :: "'h option"

type_synonym 'h route_modules = "string \<rightharpoonup> 'h route_module"

record data_strategy_match =
  route_id :: string
  shouldLoad :: bool

subsection \<open>\<^verbatim>\<open>addRevalidationParam\<close>\<close>

text \<open>\<^verbatim>\<open>Array.prototype.join(sep)\<close> on an array of strings.\<close>

fun join :: "string \<Rightarrow> string list \<Rightarrow> string" where
  "join sep [] = []"
| "join sep [x] = x"
| "join sep (x # y # ys) = x @ sep @ join sep (y # ys)"

text \<open>
  \<^verbatim>\<open>arr.filter((id) => manifest.routes[id].hasLoader)\<close>: the callback reads a property
  of \<^verbatim>\<open>manifest.routes[id]\<close>. For an id without an entry that names an inherited member,
  \<^verbatim>\<open>hasLoader\<close> is \<^verbatim>\<open>undefined\<close> and the id is dropped; for any other id without an
  entry the read throws a \<^verbatim>\<open>TypeError\<close>. The ids are visited in order.
\<close>

fun filter_hasLoader :: "assets_manifest \<Rightarrow> string list \<Rightarrow> jsval + string list" where
  "filter_hasLoader manifest [] = Inr []"
| "filter_hasLoader manifest (i # ids) =
     (case routes manifest i of
        None \<Rightarrow>
          if i \<in> set Object_prototype_members then filter_hasLoader manifest ids
          else Inl (TypeError ''Cannot read properties of undefined (reading 'hasLoader')'')
      | Some r \<Rightarrow>
          (case filter_hasLoader manifest ids of
             Inl e \<Rightarrow> Inl e
           | Inr rest \<Rightarrow> Inr (if hasLoader r then i # rest else rest)))"

definition genRouteIds :: "assets_manifest \<Rightarrow> string list \<Rightarrow> jsval + string" where
  "genRouteIds manifest arr =
     (case filter_hasLoader manifest arr of Inl e \<Rightarrow> Inl e | Inr ids \<Rightarrow> Inr (join '','' ids))"

text \<open>\<^verbatim>\<open>routeModules[m.route.id]?.shouldRevalidate\<close> is truthy.\<close>

definition has_shouldRevalidate :: "'h route_modules \<Rightarrow> data_strategy_match \<Rightarrow> bool" where
  "has_shouldRevalidate routeModules m =
     (case routeModules (route_id m) of
        None \<Rightarrow> False
      | Some module \<Rightarrow> shouldRevalidate module \<noteq> None)"

definition addRevalidationParam ::
  "assets_manifest \<Rightarrow> 'h route_modules \<Rightarrow> data_strategy_match list \<Rightarrow> url \<Rightarrow> jsval + url" where
  "addRevalidationParam manifest routeModules matches u =
     (if list_ex (has_shouldRevalidate routeModules) matches then
        (case genRouteIds manifest (map route_id matches) of
           Inl e \<Rightarrow> Inl e
         | Inr matchedIds \<Rightarrow>
             (case genRouteIds manifest (map route_id (filter shouldLoad matches)) of
                Inl e \<Rightarrow> Inl e
              | Inr loadIds \<Rightarrow>
                  if matchedIds \<noteq> loadIds
                  then Inr (u\<lparr>searchParams := searchParams_set ''_routes'' loadIds (searchParams u)\<rparr>)
                  else Inr u))
      else Inr u)"

subsection \<open>\<^verbatim>\<open>singleFetchUrl\<close>\<close>

definition singleFetchUrl :: "url \<Rightarrow> url" where
  "singleFetchUrl u =
     set_pathname ((if pathname u = ''/'' then ''_root'' else pathname u) @ ''.data'') u"

subsection \<open>Per-route results and \<^verbatim>\<open>unwrapSingleFetchResult\<close>\<close>

text \<open>
  \<^verbatim>\<open>SingleFetchResult\<close> is a union of object types that the code tells apart with the
  \<^verbatim>\<open>in\<close> operator. The record has one optional field for each key of the union, \<open>None\<close>
  for a key the object does not have, so that an object with several tags, or with none,
  is a value of the type as it is at run time. \<^verbatim>\<open>SingleFetchResults\<close> maps route ids to
  results.
\<close>

record SingleFetchResult =
  data :: "jsval option"
  error :: "jsval option"
  redirect :: "string option"
  status :: "int option"
  revalidate :: "bool option"
  reload :: "bool option"

type_synonym SingleFetchResults = "string \<rightharpoonup> SingleFetchResult"

text \<open>
  \<^verbatim>\<open>results[routeId]\<close>: the own entry, or an inherited member, or \<^verbatim>\<open>undefined\<close>
  (\<open>None\<close>). An inherited member, seen as a result, is an object with none of the keys.
\<close>

definition inherited_member :: SingleFetchResult where
  "inherited_member =
     \<lparr>data = None, error = None, redirect = None, status = None, revalidate = None,
      reload = None\<rparr>"

definition results_get :: "SingleFetchResults \<Rightarrow> string \<Rightarrow> SingleFetchResult option" where
  "results_get results routeId =
     (case results routeId of
        Some result \<Rightarrow> Some result
      | None \<Rightarrow> if routeId \<in> set Object_prototype_members then Some inherited_member else None)"

text \<open>
  \<^verbatim>\<open>Headers.set(name, value)\<close> of the platform: the value loses leading and trailing HTTP
  whitespace; a value that then contains NUL, LF or CR is refused with a \<^verbatim>\<open>TypeError\<close>;
  otherwise the header list is updated as \<^verbatim>\<open>URLSearchParams.set\<close> updates the pairs. The
  names set here are legal literals, kept as written (\<^verbatim>\<open>Headers\<close> compares names without
  regard to case).
\<close>

definition http_whitespace :: "char \<Rightarrow> bool" where
  "http_whitespace c = (c = CHR 0x09 \<or> c = CHR 0x0A \<or> c = CHR 0x0D \<or> c = CHR 0x20)"

definition normalize_header_value :: "string \<Rightarrow> string" where
  "normalize_header_value v =
     rev (dropWhile http_whitespace (rev (dropWhile http_whitespace v)))"

definition legal_header_value :: "string \<Rightarrow> bool" where
  "legal_header_value v = (CHR 0x00 \<notin> set v \<and> CHR 0x0A \<notin> set v \<and> CHR 0x0D \<notin> set v)"

definition headers_set ::
  "string \<Rightarrow> string \<Rightarrow> (string \<times> string) list \<Rightarrow> jsval + (string \<times> string) list" where
  "headers_set name v headers =
     (if legal_header_value (normalize_header_value v)
      then Inr (searchParams_set name (normalize_header_value v) headers)
      else Inl (TypeError ''Invalid header value''))"

text \<open>
  The router's \<^verbatim>\<open>redirect(url, init)\<close>: the status of \<open>init\<close>, or 302 when it has none;
  \<^verbatim>\<open>Location\<close> set to the target on the given headers; then
  \<^verbatim>\<open>new Response(null, { status, headers })\<close>. The platform converts the status to an
  unsigned 16-bit integer and throws a \<^verbatim>\<open>RangeError\<close> unless it lies in 200..599.
\<close>

definition redirect_response ::
  "string \<Rightarrow> int option \<Rightarrow> (string \<times> string) list \<Rightarrow> jsval + jsval" where
  "redirect_response target init_status headers =
     (let st = (case init_status of None \<Rightarrow> 302 | Some s \<Rightarrow> s) in
      case headers_set ''Location'' target headers of
        Inl e \<Rightarrow> Inl e
      | Inr headers' \<Rightarrow>
          if 200 \<le> st mod 65536 \<and> st mod 65536 \<le> 599
          then Inr (Response (st mod 65536) headers')
          else Inl (RangeError ''The status provided is outside the range [200, 599].''))"

definition unwrapSingleFetchResult :: "SingleFetchResult \<Rightarrow> string \<Rightarrow> jsval + jsval" where
  \<open>unwrapSingleFetchResult result routeId =
     (case error result of
        Some e \<Rightarrow> Inl e
      | None \<Rightarrow>
          (case redirect result of
             Some target \<Rightarrow>
               (let headers0 = [];
                    headers1 = (if revalidate result = Some True
                                then headers0 @ [(''X-Remix-Revalidate'', ''yes'')] else headers0);
                    headers2 = (if reload result = Some True
                                then headers1 @ [(''X-Remix-Reload-Document'', ''yes'')] else headers1)
                in redirect_response target (status result) headers2)
           | None \<Rightarrow>
               (case data result of
                  Some d \<Rightarrow> Inr d
                | None \<Rightarrow>
                    Inl (Error (''No action response found for routeId "'' @ routeId @ ''"'')))))\<close>

subsection \<open>\<^verbatim>\<open>fetchAndDecode\<close>\<close>

text \<open>
  Reading one of the properties \<^verbatim>\<open>status\<close>, \<^verbatim>\<open>statusText\<close>, \<^verbatim>\<open>data\<close>, \<^verbatim>\<open>internal\<close>: a
  \<^verbatim>\<open>TypeError\<close> on \<^verbatim>\<open>undefined\<close> and \<^verbatim>\<open>null\<close>, the own property of a plain object or
  \<^verbatim>\<open>undefined\<close> when it has none, the stored field of an \<^verbatim>\<open>ErrorResponseImpl\<close>, the status
  and the empty status text of a \<^verbatim>\<open>Response\<close> built here, and \<^verbatim>\<open>undefined\<close> on every other
  value, none of which has such a property, own or inherited.
\<close>

definition own_property :: "(string \<times> jsval) list \<Rightarrow> string \<Rightarrow> jsval" where
  "own_property props k = (case map_of props k of None \<Rightarrow> Undefined | Some v \<Rightarrow> v)"

fun get_prop :: "jsval \<Rightarrow> string \<Rightarrow> jsval + jsval" where
  "get_prop Undefined k = Inl (TypeError ''Cannot read properties of undefined'')"
| "get_prop Null k = Inl (TypeError ''Cannot read properties of null'')"
| "get_prop (Obj props) k = Inr (own_property props k)"
| "get_prop (ErrorResponseImpl s t d i e) k =
     Inr (if k = ''status'' then s else if k = ''statusText'' then t
          else if k = ''data'' then d else if k = ''internal'' then Bool i else Undefined)"
| "get_prop (Response s headers) k =
     Inr (if k = ''status'' then Num s else if k = ''statusText'' then Str '''' else Undefined)"
| "get_prop v k = Inr Undefined"

text \<open>
  The router's \<^verbatim>\<open>ErrorResponseImpl\<close> constructor: it stores the status, \<^verbatim>\<open>statusText || ""\<close>
  and the internal flag; data that is an instance of \<^verbatim>\<open>Error\<close> is stored as the private
  \<^verbatim>\<open>error\<close> with \<^verbatim>\<open>data.toString()\<close> as the data, any other data as it is.
\<close>

fun js_truthy :: "jsval \<Rightarrow> bool" where
  "js_truthy Undefined = False"
| "js_truthy Null = False"
| "js_truthy (Bool b) = b"
| "js_truthy (Num n) = (n \<noteq> 0)"
| "js_truthy (Str s) = (s \<noteq> [])"
| "js_truthy v = True"

text \<open>
  \<^verbatim>\<open>Error.prototype.toString\<close> on an instance with the given name and message; the function
  after it gives \<^verbatim>\<open>v.toString()\<close> when \<^verbatim>\<open>v instanceof Error\<close>, and \<open>None\<close> when not.
\<close>

definition error_toString :: "string \<Rightarrow> string \<Rightarrow> string" where
  "error_toString name m = (if m = [] then name else name @ '': '' @ m)"

fun instanceof_Error_toString :: "jsval \<Rightarrow> string option" where
  "instanceof_Error_toString (Error m) = Some (error_toString ''Error'' m)"
| "instanceof_Error_toString (TypeError m) = Some (error_toString ''TypeError'' m)"
| "instanceof_Error_toString (RangeError m) = Some (error_toString ''RangeError'' m)"
| "instanceof_Error_toString (SyntaxError m) = Some (error_toString ''SyntaxError'' m)"
| "instanceof_Error_toString v = None"

definition new_ErrorResponseImpl :: "jsval \<Rightarrow> jsval \<Rightarrow> jsval \<Rightarrow> bool \<Rightarrow> jsval" where
  "new_ErrorResponseImpl st statusText d internal =
     (let statusText' = (if js_truthy statusText then statusText else Str '''') in
      case instanceof_Error_toString d of
        Some s \<Rightarrow> ErrorResponseImpl st statusText' (Str s) internal (Some d)
      | None \<Rightarrow> ErrorResponseImpl st statusText' d internal None)"

text \<open>
  A decoder plugin receives the type tag and the value of a custom-encoded entry and
  returns \<^verbatim>\<open>{ value }\<close> (\<open>Some\<close>) or \<^verbatim>\<open>undefined\<close> (\<open>None\<close>). The plugin below is the one
  \<^verbatim>\<open>fetchAndDecode\<close> registers.
\<close>

type_synonym plugin = "string \<Rightarrow> jsval \<Rightarrow> jsval + jsval option"

definition errorResponsePlugin :: plugin where
  "errorResponsePlugin type errorResponse =
     (if type = ''ErrorResponse'' then
        (case get_prop errorResponse ''status'' of
           Inl e \<Rightarrow> Inl e
         | Inr st \<Rightarrow>
        (case get_prop errorResponse ''statusText'' of
           Inl e \<Rightarrow> Inl e
         | Inr statusText \<Rightarrow>
        (case get_prop errorResponse ''data'' of
           Inl e \<Rightarrow> Inl e
         | Inr d \<Rightarrow>
        (case get_prop errorResponse ''internal'' of
           Inl e \<Rightarrow> Inl e
         | Inr internal \<Rightarrow>
             Inr (Some (new_ErrorResponseImpl st statusText d (internal = Bool True)))))))
      else Inr None)"

subsection \<open>The stream decoder\<close>

text \<open>
  \<^verbatim>\<open>decode\<close> of the library \<^verbatim>\<open>turbo-stream\<close>, as far as the plugins are concerned. The
  content of a stream is a tree of encoded values: primitives, objects, errors, and
  entries with a custom type tag and a value. Decoding rebuilds the tree; at a custom
  entry it decodes the value, then calls the registered plugins in order with the tag and
  the decoded value and takes the \<^verbatim>\<open>value\<close> of the first result that is not \<^verbatim>\<open>undefined\<close>;
  when no plugin answers it throws a \<^verbatim>\<open>SyntaxError\<close>.
\<close>

datatype encoded =
    EUndefined
  | ENull
  | EBool bool
  | ENum int
  | EStr string
  | EObj "(string \<times> encoded) list"
  | EError string
  | ECustom string encoded

fun run_plugins :: "plugin list \<Rightarrow> string \<Rightarrow> jsval \<Rightarrow> jsval + jsval" where
  "run_plugins [] type v = Inl (SyntaxError '''')"
| "run_plugins (p # plugins) type v =
     (case p type v of
        Inl e \<Rightarrow> Inl e
      | Inr (Some r) \<Rightarrow> Inr r
      | Inr None \<Rightarrow> run_plugins plugins type v)"

fun decode_value :: "plugin list \<Rightarrow> encoded \<Rightarrow> jsval + jsval"
  and decode_props :: "plugin list \<Rightarrow> (string \<times> encoded) list \<Rightarrow> jsval + (string \<times> jsval) list"
  where
  "decode_value plugins EUndefined = Inr Undefined"
| "decode_value plugins ENull = Inr Null"
| "decode_value plugins (EBool b) = Inr (Bool b)"
| "decode_value plugins (ENum n) = Inr (Num n)"
| "decode_value plugins (EStr s) = Inr (Str s)"
| "decode_value plugins (EObj entries) =
     (case decode_props plugins entries of Inl e \<Rightarrow> Inl e | Inr props \<Rightarrow> Inr (Obj props))"
| "decode_value plugins (EError m) = Inr (Error m)"
| "decode_value plugins (ECustom type e) =
     (case decode_value plugins e of Inl x \<Rightarrow> Inl x | Inr v \<Rightarrow> run_plugins plugins type v)"
| "decode_props plugins [] = Inr []"
| "decode_props plugins (entry # entries) =
     (case decode_value plugins (snd entry) of
        Inl x \<Rightarrow> Inl x
      | Inr v \<Rightarrow>
          (case decode_props plugins entries of
             Inl x \<Rightarrow> Inl x
           | Inr props \<Rightarrow> Inr ((fst entry, v) # props)))"

text \<open>
  The code casts the decoded top-level value to \<^verbatim>\<open>SingleFetchResult\<close> (action) or to
  \<^verbatim>\<open>SingleFetchResults\<close> (loader). An encoded result is the stream content at that type: the
  keys of a result, with the values of \<^verbatim>\<open>data\<close> and \<^verbatim>\<open>error\<close> still encoded; an encoded
  results object lists the encoded result of each route id (an object has each key once).
\<close>

record encoded_result =
  encoded_data :: "encoded option"
  encoded_error :: "encoded option"
  encoded_redirect :: "string option"
  encoded_status :: "int option"
  encoded_revalidate :: "bool option"
  encoded_reload :: "bool option"

fun decode_optional :: "plugin list \<Rightarrow> encoded option \<Rightarrow> jsval + jsval option" where
  "decode_optional plugins None = Inr None"
| "decode_optional plugins (Some e) =
     (case decode_value plugins e of Inl x \<Rightarrow> Inl x | Inr v \<Rightarrow> Inr (Some v))"

definition decode_encoded_result :: "plugin list \<Rightarrow> encoded_result \<Rightarrow> jsval + SingleFetchResult" where
  "decode_encoded_result plugins er =
     (case decode_optional plugins (encoded_data er) of
        Inl x \<Rightarrow> Inl x
      | Inr d \<Rightarrow>
          (case decode_optional plugins (encoded_error er) of
             Inl x \<Rightarrow> Inl x
           | Inr e \<Rightarrow>
               Inr \<lparr>data = d, error = e, redirect = encoded_redirect er,
                    status = encoded_status er, revalidate = encoded_revalidate er,
                    reload = encoded_reload er\<rparr>))"

fun decode_encoded_results ::
  "plugin list \<Rightarrow> (string \<times> encoded_result) list \<Rightarrow> jsval + SingleFetchResults" where
  "decode_encoded_results plugins [] = Inr Map.empty"
| "decode_encoded_results plugins (entry # entries) =
     (case decode_encoded_result plugins (snd entry) of
        Inl x \<Rightarrow> Inl x
      | Inr result \<Rightarrow>
          (case decode_encoded_results plugins entries of
             Inl x \<Rightarrow> Inl x
           | Inr results \<Rightarrow> Inr (results(fst entry \<mapsto> result))))"

subsection \<open>The request and its response\<close>

text \<open>\<^verbatim>\<open>String.prototype.includes\<close>: the argument occurs as a contiguous substring.\<close>

fun str_includes :: "string \<Rightarrow> string \<Rightarrow> bool" where
  "str_includes [] sub = (sub = [])"
| "str_includes (c # cs) sub = (prefix sub (c # cs) \<or> str_includes cs sub)"

text \<open>
  Modelled from the spec: \<^verbatim>\<open>invariant\<close> (imported from \<^verbatim>\<open>./invariant\<close>, not among the
  sources). The decoder "fails fast if the assertion does not hold (signals a
  protocol-mismatch error, not a silent fallback)": when the asserted value is not true,
  an \<^verbatim>\<open>Error\<close> with the given message is thrown. The asserted value here is a boolean, or
  \<^verbatim>\<open>undefined\<close> (\<open>None\<close>) when the optional chain stops at a missing header.
\<close>

definition invariant :: "bool option \<Rightarrow> string \<Rightarrow> jsval + unit" where
  "invariant v message = (if v = Some True then Inr () else Inl (Error message))"

text \<open>
  A response as the code sees it: the value of \<^verbatim>\<open>res.headers.get("Content-Type")\<close>
  (\<open>None\<close> for \<^verbatim>\<open>null\<close>) and the body stream.
\<close>

record 'b response =
  contentType :: "string option"
  body :: 'b

text \<open>
  The state a navigation's data strategy works on: the variable \<^verbatim>\<open>singleFetchPromise\<close> of
  the loader branch, \<open>None\<close> while it is unassigned, and the network calls issued so far.
  A promise is modelled by the outcome it settles to, \<open>Inl\<close> for a rejection.
\<close>

record 'i state =
  singleFetchPromise :: "(jsval + SingleFetchResults) option"
  fetch_calls :: "(url \<times> 'i option) list"

text \<open>
  \<^verbatim>\<open>fetch\<close> and the stream decoder \<^verbatim>\<open>decode\<close> of \<^verbatim>\<open>turbo-stream\<close> are parameters; \<open>decode\<close>
  delivers the top-level value at the type the caller casts it to. The call of \<open>fetch\<close>
  is recorded in the state before anything is awaited.
\<close>

definition fetchAndDecode ::
  "(url \<Rightarrow> 'i option \<Rightarrow> jsval + 'b response) \<Rightarrow> ('b \<Rightarrow> plugin list \<Rightarrow> jsval + 'a) \<Rightarrow>
   url \<Rightarrow> 'i option \<Rightarrow> 'i state \<Rightarrow> (jsval + 'a) \<times> 'i state" where
  "fetchAndDecode fetch decode u init st =
     (let st' = st\<lparr>fetch_calls := fetch_calls st @ [(u, init)]\<rparr> in
      case fetch u init of
        Inl e \<Rightarrow> (Inl e, st')
      | Inr res \<Rightarrow>
          (case invariant (map_option (\<lambda>ct. str_includes ct ''text/x-turbo'') (contentType res))
                  ''Expected a text/x-turbo response'' of
             Inl e \<Rightarrow> (Inl e, st')
           | Inr _ \<Rightarrow> (decode (body res) [errorResponsePlugin], st')))"

subsection \<open>\<^verbatim>\<open>getSingleFetchDataStrategy\<close>\<close>

record request =
  request_method :: string
  request_url :: url

text \<open>
  What the strategy closes over: the platform (\<^verbatim>\<open>fetch\<close>, \<^verbatim>\<open>decode\<close> at the two types it is
  cast to, \<^verbatim>\<open>createRequestInit\<close> of \<^verbatim>\<open>./data\<close>), the arguments of
  \<^verbatim>\<open>getSingleFetchDataStrategy\<close> and the arguments of the strategy itself.
\<close>

record ('b, 'i, 'h) env =
  fetch :: "url \<Rightarrow> 'i option \<Rightarrow> jsval + 'b response"
  decode_result :: "'b \<Rightarrow> plugin list \<Rightarrow> jsval + SingleFetchResult"
  decode_results :: "'b \<Rightarrow> plugin list \<Rightarrow> jsval + SingleFetchResults"
  createRequestInit :: "request \<Rightarrow> jsval + 'i"
  manifest :: assets_manifest
  routeModules :: "'h route_modules"
  request :: request
  matches :: "data_strategy_match list"

text \<open>The action branch: every call hits the server.\<close>

definition singleFetch_action ::
  "('b, 'i, 'h) env \<Rightarrow> string \<Rightarrow> 'i state \<Rightarrow> (jsval + jsval) \<times> 'i state" where
  "singleFetch_action env routeId st =
     (let u = singleFetchUrl (request_url (request env)) in
      case createRequestInit env (request env) of
        Inl e \<Rightarrow> (Inl e, st)
      | Inr init \<Rightarrow>
          (case fetchAndDecode (fetch env) (decode_result env) u (Some init) st of
             (Inl e, st') \<Rightarrow> (Inl e, st')
           | (Inr result, st') \<Rightarrow> (unwrapSingleFetchResult result routeId, st')))"

text \<open>
  The loader branch. \<^verbatim>\<open>makeSingleFetchCall\<close> is an async function: an exception while the
  URL is built rejects the promise it returns, before any network call.
\<close>

definition makeSingleFetchCall ::
  "('b, 'i, 'h) env \<Rightarrow> 'i state \<Rightarrow> (jsval + SingleFetchResults) \<times> 'i state" where
  "makeSingleFetchCall env st =
     (case addRevalidationParam (manifest env) (routeModules env) (matches env)
             (stripIndexParam (request_url (request env))) of
        Inl e \<Rightarrow> (Inl e, st)
      | Inr u \<Rightarrow> fetchAndDecode (fetch env) (decode_results env) (singleFetchUrl u) None st)"

text \<open>
  The first three lines of the loader's \<^verbatim>\<open>singleFetch\<close>: assign the promise when it is
  unset, then await it. They run without interruption up to the \<^verbatim>\<open>await\<close>.
\<close>

definition awaitSingleFetchPromise ::
  "('b, 'i, 'h) env \<Rightarrow> 'i state \<Rightarrow> (jsval + SingleFetchResults) \<times> 'i state" where
  "awaitSingleFetchPromise env st =
     (case singleFetchPromise st of
        None \<Rightarrow>
          (case makeSingleFetchCall env st of
             (p, st') \<Rightarrow> (p, st'\<lparr>singleFetchPromise := Some p\<rparr>))
      | Some p \<Rightarrow> (p, st))"

text \<open>The rest of it: what a caller makes of the settled promise.\<close>

definition loaderOutcome :: "jsval + SingleFetchResults \<Rightarrow> string \<Rightarrow> jsval + jsval" where
  "loaderOutcome p routeId =
     (case p of
        Inl e \<Rightarrow> Inl e
      | Inr results \<Rightarrow>
          (case results_get results routeId of
             Some result \<Rightarrow> unwrapSingleFetchResult result routeId
           | None \<Rightarrow> Inr Null))"

definition singleFetch_loader ::
  "('b, 'i, 'h) env \<Rightarrow> string \<Rightarrow> 'i state \<Rightarrow> (jsval + jsval) \<times> 'i state" where
  "singleFetch_loader env routeId st =
     (case awaitSingleFetchPromise env st of (p, st') \<Rightarrow> (loaderOutcome p routeId, st'))"

definition singleFetch ::
  "('b, 'i, 'h) env \<Rightarrow> string \<Rightarrow> 'i state \<Rightarrow> (jsval + jsval) \<times> 'i state" where
  "singleFetch env routeId st =
     (if request_method (request env) \<noteq> ''GET'' then singleFetch_action env routeId st
      else singleFetch_loader env routeId st)"

text \<open>
  The route handlers call \<^verbatim>\<open>singleFetch\<close> or not, in any order; scheduling is cooperative,
  so a run of the strategy is the list of route ids in the order in which the calls
  start. The state at the start of a navigation has no promise and no network call.
\<close>

fun run_singleFetch ::
  "('b, 'i, 'h) env \<Rightarrow> string list \<Rightarrow> 'i state \<Rightarrow> (jsval + jsval) list \<times> 'i state" where
  "run_singleFetch env [] st = ([], st)"
| "run_singleFetch env (routeId # routeIds) st =
     (case singleFetch env routeId st of
        (outcome, st') \<Rightarrow>
          (case run_singleFetch env routeIds st' of
             (outcomes, st'') \<Rightarrow> (outcome # outcomes, st'')))"

definition initial_state :: "'i state" where
  "initial_state = \<lparr>singleFetchPromise = None, fetch_calls = []\<rparr>"

section \<open>Properties\<close>

subsection \<open>Search parameters\<close>

lemma indexValuesToKeep_eq: "indexValuesToKeep keep vs = keep @ filter (\<lambda>v. v \<noteq> []) vs"
  by (induction vs arbitrary: keep) simp_all

lemma appendIndexValues_eq: "appendIndexValues vs ps = ps @ map (Pair ''index'') vs"
  by (induction vs arbitrary: ps) (simp_all add: searchParams_append_def)

lemma searchParams_stripIndexParam:
  "searchParams (stripIndexParam u) =
     filter (\<lambda>p. fst p \<noteq> ''index'') (searchParams u) @
     map (Pair ''index'') (filter (\<lambda>v. v \<noteq> []) (searchParams_getAll ''index'' (searchParams u)))"
  by (simp add: stripIndexParam_def Let_def indexValuesToKeep_eq appendIndexValues_eq
      searchParams_delete_def)

lemma getAll_append:
  "searchParams_getAll k (ps @ qs) = searchParams_getAll k ps @ searchParams_getAll k qs"
  by (simp add: searchParams_getAll_def)

lemma getAll_delete_same: "searchParams_getAll k (filter (\<lambda>p. fst p \<noteq> k) ps) = []"
  by (induction ps) (simp_all add: searchParams_getAll_def)

lemma getAll_map_Pair: "searchParams_getAll k (map (Pair k) vs) = vs"
  by (induction vs) (simp_all add: searchParams_getAll_def)

subsection \<open>Search parameters: \<^verbatim>\<open>set\<close>\<close>

lemma filter_searchParams_set:
  "filter (\<lambda>p. fst p \<noteq> k) (searchParams_set k v ps) = filter (\<lambda>p. fst p \<noteq> k) ps"
  by (induction ps) (simp_all add: searchParams_delete_def)

lemma getAll_searchParams_set: "searchParams_getAll k (searchParams_set k v ps) = [v]"
  by (induction ps) (simp_all add: searchParams_getAll_def searchParams_delete_def)

lemma addRevalidationParam_cases:
  assumes "addRevalidationParam mf rm ms u = Inr u'"
  shows "u' = u \<or> (\<exists>v. u' = u\<lparr>searchParams := searchParams_set ''_routes'' v (searchParams u)\<rparr>)"
  using assms
  by (auto simp: addRevalidationParam_def split: if_splits sum.splits)

subsection \<open>Index-parameter normalisation\<close>

text \<open>
  C8. \<^verbatim>\<open>stripIndexParam\<close> removes exactly the empty-valued \<^verbatim>\<open>index\<close> entries: the query
  becomes the other pairs, in order, followed by the non-empty \<^verbatim>\<open>index\<close> values in their
  original relative order; so the \<^verbatim>\<open>index\<close> values of the result are the non-empty ones
  of the input, and \<^verbatim>\<open>?index=&index=abc\<close> becomes \<^verbatim>\<open>?index=abc\<close>.
\<close>

theorem stripIndexParam_index_values:
  "searchParams (stripIndexParam u) =
     filter (\<lambda>p. fst p \<noteq> ''index'') (searchParams u) @
     map (Pair ''index'') (filter (\<lambda>v. v \<noteq> '''') (searchParams_getAll ''index'' (searchParams u)))
   \<and> searchParams_getAll ''index'' (searchParams (stripIndexParam u)) =
     filter (\<lambda>v. v \<noteq> '''') (searchParams_getAll ''index'' (searchParams u))
   \<and> searchParams (stripIndexParam (u\<lparr>searchParams := [(''index'', ''''), (''index'', ''abc'')]\<rparr>)) =
     [(''index'', ''abc'')]"
proof (intro conjI)
  show "searchParams (stripIndexParam u) =
     filter (\<lambda>p. fst p \<noteq> ''index'') (searchParams u) @
     map (Pair ''index'') (filter (\<lambda>v. v \<noteq> '''') (searchParams_getAll ''index'' (searchParams u)))"
    by (rule searchParams_stripIndexParam)
  show "searchParams_getAll ''index'' (searchParams (stripIndexParam u)) =
     filter (\<lambda>v. v \<noteq> '''') (searchParams_getAll ''index'' (searchParams u))"
    by (simp only: searchParams_stripIndexParam getAll_append getAll_delete_same getAll_map_Pair
        append_Nil)
  show "searchParams (stripIndexParam (u\<lparr>searchParams := [(''index'', ''''), (''index'', ''abc'')]\<rparr>)) =
     [(''index'', ''abc'')]"
    by (simp add: searchParams_stripIndexParam searchParams_getAll_def)
qed

theorem stripIndexParam_index_values_witness:
  "searchParams (stripIndexParam \<lparr>origin = ''https://example.com'', pathname = ''/dash'',
      searchParams = [(''index'', ''''), (''q'', ''1''), (''index'', ''abc''), (''index'', '''')],
      hash = ''''\<rparr>) = [(''q'', ''1''), (''index'', ''abc'')]"
  using stripIndexParam_index_values [of "\<lparr>origin = ''https://example.com'', pathname = ''/dash'',
      searchParams = [(''index'', ''''), (''q'', ''1''), (''index'', ''abc''), (''index'', '''')],
      hash = ''''\<rparr>"]
  by (simp add: searchParams_getAll_def)

subsection \<open>The path transform\<close>

text \<open>
  C9. \<^verbatim>\<open>singleFetchUrl\<close> maps the root path \<^verbatim>\<open>/\<close> to the literal path \<^verbatim>\<open>/_root.data\<close>, and
  any other path of a parsed URL (it starts with a slash) to that path with the suffix
  \<^verbatim>\<open>.data\<close> appended: \<^verbatim>\<open>/foo/bar\<close> becomes \<^verbatim>\<open>/foo/bar.data\<close>.
\<close>

theorem singleFetchUrl_pathname:
  "(pathname u = ''/'' \<longrightarrow> pathname (singleFetchUrl u) = ''/_root.data'') \<and>
   (pathname u \<noteq> ''/'' \<and> prefix ''/'' (pathname u) \<longrightarrow>
      pathname (singleFetchUrl u) = pathname u @ ''.data'')"
  by (auto simp: singleFetchUrl_def set_pathname_def prefix_def split: list.splits)

theorem singleFetchUrl_pathname_witness:
  "pathname (singleFetchUrl \<lparr>origin = ''https://example.com'', pathname = ''/'',
      searchParams = [(''q'', ''1'')], hash = ''''\<rparr>) = ''/_root.data'' \<and>
   pathname (singleFetchUrl \<lparr>origin = ''https://example.com'', pathname = ''/foo/bar'',
      searchParams = [], hash = ''''\<rparr>) = ''/foo/bar.data''"
  using singleFetchUrl_pathname [of "\<lparr>origin = ''https://example.com'', pathname = ''/'',
      searchParams = [(''q'', ''1'')], hash = ''''\<rparr>"]
    singleFetchUrl_pathname [of "\<lparr>origin = ''https://example.com'', pathname = ''/foo/bar'',
      searchParams = [], hash = ''''\<rparr>"]
  by simp

subsection \<open>What the URL transforms leave alone\<close>

text \<open>
  C10. \<^verbatim>\<open>stripIndexParam\<close> leaves the origin, the path, the fragment and the pairs of every
  parameter other than \<^verbatim>\<open>index\<close> unchanged; \<^verbatim>\<open>addRevalidationParam\<close>, when it returns,
  leaves the origin, the path, the fragment and the pairs of every parameter other than
  \<^verbatim>\<open>_routes\<close> unchanged; \<^verbatim>\<open>singleFetchUrl\<close> leaves the origin, the whole query and the
  fragment unchanged.
\<close>

theorem url_transforms_frame:
  "origin (stripIndexParam u) = origin u \<and> pathname (stripIndexParam u) = pathname u \<and>
   hash (stripIndexParam u) = hash u \<and>
   filter (\<lambda>p. fst p \<noteq> ''index'') (searchParams (stripIndexParam u)) =
     filter (\<lambda>p. fst p \<noteq> ''index'') (searchParams u) \<and>
   (\<forall>u'. addRevalidationParam mf rm ms u = Inr u' \<longrightarrow>
      origin u' = origin u \<and> pathname u' = pathname u \<and> hash u' = hash u \<and>
      filter (\<lambda>p. fst p \<noteq> ''_routes'') (searchParams u') =
        filter (\<lambda>p. fst p \<noteq> ''_routes'') (searchParams u)) \<and>
   origin (singleFetchUrl u) = origin u \<and> searchParams (singleFetchUrl u) = searchParams u \<and>
   hash (singleFetchUrl u) = hash u"
proof (intro conjI allI impI)
  show "filter (\<lambda>p. fst p \<noteq> ''index'') (searchParams (stripIndexParam u)) =
     filter (\<lambda>p. fst p \<noteq> ''index'') (searchParams u)"
    by (simp add: searchParams_stripIndexParam filter_empty_conv)
next
  fix u' assume a: "addRevalidationParam mf rm ms u = Inr u'"
  from addRevalidationParam_cases [OF a]
  show "origin u' = origin u" "pathname u' = pathname u" "hash u' = hash u"
    "filter (\<lambda>p. fst p \<noteq> ''_routes'') (searchParams u') =
        filter (\<lambda>p. fst p \<noteq> ''_routes'') (searchParams u)"
    by (auto simp: filter_searchParams_set)
qed (simp_all add: stripIndexParam_def Let_def singleFetchUrl_def set_pathname_def)

theorem url_transforms_frame_witness:
  "addRevalidationParam
     \<lparr>routes = [''root'' \<mapsto> \<lparr>hasLoader = True\<rparr>, ''routes/a'' \<mapsto> \<lparr>hasLoader = True\<rparr>]\<rparr>
     [''routes/a'' \<mapsto> \<lparr>shouldRevalidate = Some ()\<rparr>]
     [\<lparr>route_id = ''root'', shouldLoad = False\<rparr>, \<lparr>route_id = ''routes/a'', shouldLoad = True\<rparr>]
     \<lparr>origin = ''https://example.com'', pathname = ''/a'',
      searchParams = [(''q'', ''1''), (''_routes'', ''x'')], hash = ''#top''\<rparr>
   = Inr \<lparr>origin = ''https://example.com'', pathname = ''/a'',
      searchParams = [(''q'', ''1''), (''_routes'', ''routes/a'')], hash = ''#top''\<rparr>
   \<and> filter (\<lambda>p. fst p \<noteq> ''_routes'') [(''q'', ''1''), (''_routes'', ''routes/a'')] =
     filter (\<lambda>p. fst p \<noteq> ''_routes'') [(''q'', ''1''), (''_routes'', ''x'')]"
proof -
  let ?mf = "\<lparr>routes = [''root'' \<mapsto> \<lparr>hasLoader = True\<rparr>, ''routes/a'' \<mapsto> \<lparr>hasLoader = True\<rparr>]\<rparr>"
  let ?rm = "[''routes/a'' \<mapsto> \<lparr>shouldRevalidate = Some ()\<rparr>]"
  let ?ms = "[\<lparr>route_id = ''root'', shouldLoad = False\<rparr>, \<lparr>route_id = ''routes/a'', shouldLoad = True\<rparr>]"
  let ?u = "\<lparr>origin = ''https://example.com'', pathname = ''/a'',
      searchParams = [(''q'', ''1''), (''_routes'', ''x'')], hash = ''#top''\<rparr>"
  let ?u' = "\<lparr>origin = ''https://example.com'', pathname = ''/a'',
      searchParams = [(''q'', ''1''), (''_routes'', ''routes/a'')], hash = ''#top''\<rparr>"
  have run: "addRevalidationParam ?mf ?rm ?ms ?u = Inr ?u'"
    by (simp add: addRevalidationParam_def has_shouldRevalidate_def genRouteIds_def
        searchParams_delete_def)
  from url_transforms_frame [of ?u ?mf ?rm ?ms] run
  have "filter (\<lambda>p. fst p \<noteq> ''_routes'') (searchParams ?u') =
        filter (\<lambda>p. fst p \<noteq> ''_routes'') (searchParams ?u)"
    by blast
  with run show ?thesis by simp
qed

subsection \<open>Substring test\<close>

lemma str_includes_sublist: "str_includes s sub \<longleftrightarrow> sublist sub s"
  by (induction s) (simp_all add: sublist_Cons_right)

subsection \<open>Joined route ids\<close>

lemma length_join:
  "length (join sep xs) = sum_list (map length xs) + length sep * (length xs - 1)"
  by (induction sep xs rule: join.induct) simp_all

lemma subseq_sum_length:
  "subseq xs ys \<Longrightarrow> sum_list (map length xs) \<le> sum_list (map length ys)"
  by (induction rule: list_emb.induct) simp_all

lemma subseq_distinct_imp: "subseq xs ys \<Longrightarrow> distinct ys \<Longrightarrow> distinct xs"
  by (induction rule: list_emb.induct) (auto dest: list_emb_set)

lemma subseq_set_eq_iff:
  assumes "subseq xs ys" and "distinct ys"
  shows "set xs = set ys \<longleftrightarrow> xs = ys"
proof
  assume eq: "set xs = set ys"
  have "distinct xs" using assms by (rule subseq_distinct_imp)
  then have "length xs = card (set xs)" by (simp add: distinct_card)
  also have "\<dots> = length ys" using eq assms(2) by (simp add: distinct_card)
  finally show "xs = ys" using assms(1) by (rule subseq_same_length [rotated])
qed simp

lemma join_subseq_eq_iff:
  assumes sub: "subseq xs ys" and ne: "[] \<notin> set ys"
  shows "join '','' xs = join '','' ys \<longleftrightarrow> xs = ys"
proof
  assume eq: "join '','' xs = join '','' ys"
  show "xs = ys"
  proof (rule ccontr)
    assume neq: "xs \<noteq> ys"
    have le: "length xs \<le> length ys" using sub by (rule list_emb_length)
    with neq sub have lt: "length xs < length ys"
      using subseq_same_length le_neq_implies_less by blast
    have sm: "sum_list (map length xs) \<le> sum_list (map length ys)"
      using sub by (rule subseq_sum_length)
    have "length (join '','' xs) < length (join '','' ys)"
    proof (cases xs)
      case Nil
      from lt obtain y ys' where ys: "ys = y # ys'" by (cases ys) auto
      with ne have "0 < length y" by auto
      then show ?thesis using Nil ys by (simp add: length_join)
    next
      case (Cons x xs')
      then show ?thesis using lt sm by (simp add: length_join)
    qed
    with eq show False by simp
  qed
qed simp

lemma filter_hasLoader_total:
  assumes "set ids \<subseteq> dom (routes mf)"
  shows "filter_hasLoader mf ids =
         Inr (filter (\<lambda>i. map_option hasLoader (routes mf i) = Some True) ids)"
  using assms by (induction ids) (auto split: option.splits)

lemma genRouteIds_total:
  assumes "set ids \<subseteq> dom (routes mf)"
  shows "genRouteIds mf ids =
         Inr (join '','' (filter (\<lambda>i. map_option hasLoader (routes mf i) = Some True) ids))"
  using assms by (simp add: genRouteIds_def filter_hasLoader_total)

lemma addRevalidationParam_total:
  assumes wf: "\<forall>m\<in>set ms. route_id m \<in> dom (routes mf)"
  shows "addRevalidationParam mf rm ms u =
     Inr (if list_ex (has_shouldRevalidate rm) ms \<and>
             join '','' (filter (\<lambda>i. map_option hasLoader (routes mf i) = Some True) (map route_id ms)) \<noteq>
             join '','' (filter (\<lambda>i. map_option hasLoader (routes mf i) = Some True)
                (map route_id (filter shouldLoad ms)))
          then u\<lparr>searchParams := searchParams_set ''_routes''
                 (join '','' (filter (\<lambda>i. map_option hasLoader (routes mf i) = Some True)
                    (map route_id (filter shouldLoad ms)))) (searchParams u)\<rparr>
          else u)"
proof -
  have a: "set (map route_id ms) \<subseteq> dom (routes mf)" using wf by auto
  have b: "set (map route_id (filter shouldLoad ms)) \<subseteq> dom (routes mf)" using wf by auto
  show ?thesis
    by (simp add: addRevalidationParam_def genRouteIds_total [OF a] genRouteIds_total [OF b])
qed

subsection \<open>The revalidation parameter\<close>

text \<open>
  C2, as amended. For matched routes with distinct, non-empty ids that all have a manifest
  entry, \<^verbatim>\<open>addRevalidationParam\<close> returns, and it sets \<^verbatim>\<open>_routes\<close> (replacing whatever the
  URL had under that name) if and only if some matched route has a \<^verbatim>\<open>shouldRevalidate\<close>
  hook and the set of matched ids with a loader differs from the set of ids with a loader
  among the matches marked \<^verbatim>\<open>shouldLoad\<close>; the value is then the comma-joined list of the
  latter, in match order. Otherwise the URL is returned as it came, so its \<^verbatim>\<open>_routes\<close>
  values are those of the request URL.
\<close>

theorem addRevalidationParam_scoping:
  assumes wf: "\<forall>m\<in>set ms. route_id m \<in> dom (routes mf)"
    and dist: "distinct (map route_id ms)"
    and nonempty: "\<forall>m\<in>set ms. route_id m \<noteq> ''''"
    and matched: "matched = filter (\<lambda>i. map_option hasLoader (routes mf i) = Some True) (map route_id ms)"
    and load: "load = filter (\<lambda>i. map_option hasLoader (routes mf i) = Some True)
                 (map route_id (filter shouldLoad ms))"
  shows "\<exists>u'. addRevalidationParam mf rm ms u = Inr u' \<and>
           u' = (if list_ex (has_shouldRevalidate rm) ms \<and> set matched \<noteq> set load
                 then u\<lparr>searchParams := searchParams_set ''_routes'' (join '','' load) (searchParams u)\<rparr>
                 else u) \<and>
           searchParams_getAll ''_routes'' (searchParams u') =
             (if list_ex (has_shouldRevalidate rm) ms \<and> set matched \<noteq> set load
              then [join '','' load]
              else searchParams_getAll ''_routes'' (searchParams u))"
proof -
  have sub: "subseq load matched"
    unfolding matched load by (intro subseq_filter subseq_map subseq_filter_left)
  have dm: "distinct matched" unfolding matched using dist by (rule distinct_filter)
  have ne: "[] \<notin> set matched" unfolding matched using nonempty by auto
  have iff: "join '','' matched \<noteq> join '','' load \<longleftrightarrow> set matched \<noteq> set load"
    using join_subseq_eq_iff [OF sub ne] subseq_set_eq_iff [OF sub dm] by metis
  have run: "addRevalidationParam mf rm ms u =
     Inr (if list_ex (has_shouldRevalidate rm) ms \<and> join '','' matched \<noteq> join '','' load
          then u\<lparr>searchParams := searchParams_set ''_routes'' (join '','' load) (searchParams u)\<rparr>
          else u)"
    unfolding matched load by (rule addRevalidationParam_total [OF wf])
  show ?thesis
    unfolding run iff by (simp add: getAll_searchParams_set)
qed

theorem addRevalidationParam_scoping_witness:
  "addRevalidationParam
     \<lparr>routes = [''root'' \<mapsto> \<lparr>hasLoader = True\<rparr>, ''routes/a'' \<mapsto> \<lparr>hasLoader = False\<rparr>,
                ''routes/a.b'' \<mapsto> \<lparr>hasLoader = True\<rparr>]\<rparr>
     [''root'' \<mapsto> \<lparr>shouldRevalidate = Some ()\<rparr>]
     [\<lparr>route_id = ''root'', shouldLoad = False\<rparr>, \<lparr>route_id = ''routes/a'', shouldLoad = True\<rparr>,
      \<lparr>route_id = ''routes/a.b'', shouldLoad = True\<rparr>]
     \<lparr>origin = ''https://example.com'', pathname = ''/a/b'', searchParams = [(''q'', ''1'')],
      hash = ''''\<rparr> =
   Inr \<lparr>origin = ''https://example.com'', pathname = ''/a/b'',
        searchParams = [(''q'', ''1''), (''_routes'', ''routes/a.b'')], hash = ''''\<rparr>"
  (is "addRevalidationParam ?mf ?rm ?ms ?u = Inr ?u'")
proof -
  have wf: "\<forall>m\<in>set ?ms. route_id m \<in> dom (routes ?mf)" by simp
  have dist: "distinct (map route_id ?ms)" by simp
  have nonempty: "\<forall>m\<in>set ?ms. route_id m \<noteq> ''''" by simp
  have matched: "[''root'', ''routes/a.b''] =
      filter (\<lambda>i. map_option hasLoader (routes ?mf i) = Some True) (map route_id ?ms)"
    by simp
  have load: "[''routes/a.b''] =
      filter (\<lambda>i. map_option hasLoader (routes ?mf i) = Some True)
        (map route_id (filter shouldLoad ?ms))"
    by simp
  have hook: "list_ex (has_shouldRevalidate ?rm) ?ms" by (simp add: has_shouldRevalidate_def)
  from addRevalidationParam_scoping [OF wf dist nonempty matched load, of ?rm ?u] hook
  show ?thesis by simp
qed

text \<open>
  The claim as it was stated also says that without any \<^verbatim>\<open>shouldRevalidate\<close> hook the
  consolidated URL never carries \<^verbatim>\<open>_routes\<close>. A request URL that already has the parameter
  keeps it: for \<^verbatim>\<open>https://example.com/?_routes=routes/x\<close> and one matched route without a
  hook, the URL comes back unchanged and the request goes to
  \<^verbatim>\<open>/_root.data?_routes=routes/x\<close>.
\<close>

theorem scoping_param_passthrough_counterexample:
  "\<not> list_ex (has_shouldRevalidate (Map.empty :: unit route_modules))
       [\<lparr>route_id = ''root'', shouldLoad = True\<rparr>] \<and>
   addRevalidationParam \<lparr>routes = [''root'' \<mapsto> \<lparr>hasLoader = True\<rparr>]\<rparr>
     (Map.empty :: unit route_modules) [\<lparr>route_id = ''root'', shouldLoad = True\<rparr>]
     (stripIndexParam \<lparr>origin = ''https://example.com'', pathname = ''/'',
        searchParams = [(''_routes'', ''routes/x'')], hash = ''''\<rparr>) =
   Inr \<lparr>origin = ''https://example.com'', pathname = ''/'',
        searchParams = [(''_routes'', ''routes/x'')], hash = ''''\<rparr> \<and>
   singleFetchUrl \<lparr>origin = ''https://example.com'', pathname = ''/'',
        searchParams = [(''_routes'', ''routes/x'')], hash = ''''\<rparr> =
   \<lparr>origin = ''https://example.com'', pathname = ''/_root.data'',
        searchParams = [(''_routes'', ''routes/x'')], hash = ''''\<rparr>"
  by (simp add: has_shouldRevalidate_def addRevalidationParam_def stripIndexParam_def
      searchParams_getAll_def searchParams_delete_def singleFetchUrl_def set_pathname_def)
subsection \<open>Unwrapping a per-route result\<close>

text \<open>
  C5. On an action (non-GET) request, a decoded result with none of the keys \<^verbatim>\<open>data\<close>,
  \<^verbatim>\<open>error\<close> and \<^verbatim>\<open>redirect\<close> makes \<^verbatim>\<open>unwrapSingleFetchResult\<close>, and with it the call of
  \<^verbatim>\<open>singleFetch\<close>, throw an \<^verbatim>\<open>Error\<close> whose message quotes the route id.
\<close>

theorem unwrap_untagged_action_result:
  assumes "request_method (request env) \<noteq> ''GET''"
    and "createRequestInit env (request env) = Inr init"
    and "fetchAndDecode (fetch env) (decode_result env)
           (singleFetchUrl (request_url (request env))) (Some init) st = (Inr result, st')"
    and "data result = None" and "error result = None" and "redirect result = None"
  shows \<open>unwrapSingleFetchResult result routeId =
           Inl (Error (''No action response found for routeId "'' @ routeId @ ''"'')) \<and>
         singleFetch env routeId st =
           (Inl (Error (''No action response found for routeId "'' @ routeId @ ''"'')), st')\<close>
proof -
  have u: \<open>unwrapSingleFetchResult result routeId =
           Inl (Error (''No action response found for routeId "'' @ routeId @ ''"''))\<close>
    using assms(4-6) by (simp add: unwrapSingleFetchResult_def)
  have "singleFetch env routeId st = (unwrapSingleFetchResult result routeId, st')"
    using assms(1-3) by (simp add: singleFetch_def singleFetch_action_def Let_def)
  with u show ?thesis by simp
qed

theorem unwrap_untagged_action_result_witness:
  \<open>fst (singleFetch
     \<lparr>fetch = (\<lambda>u init. Inr \<lparr>contentType = Some ''text/x-turbo'', body = ()\<rparr>),
      decode_result = (\<lambda>b plugins. Inr \<lparr>data = None, error = None, redirect = None,
          status = None, revalidate = None, reload = None\<rparr>),
      decode_results = (\<lambda>b plugins. Inl (Error ''unused'')),
      createRequestInit = (\<lambda>r. Inr ()),
      manifest = \<lparr>routes = [''routes/a'' \<mapsto> \<lparr>hasLoader = True\<rparr>]\<rparr>,
      routeModules = (Map.empty :: unit route_modules),
      request = \<lparr>request_method = ''POST'',
        request_url = \<lparr>origin = ''https://example.com'', pathname = ''/a'',
          searchParams = [], hash = ''''\<rparr>\<rparr>,
      matches = [\<lparr>route_id = ''routes/a'', shouldLoad = True\<rparr>]\<rparr>
     ''routes/a'' initial_state) =
   Inl (Error ''No action response found for routeId "routes/a"'')\<close>
  (is "fst (singleFetch ?env ?routeId initial_state) = ?err")
proof -
  let ?result = "\<lparr>data = None, error = None, redirect = None, status = None,
      revalidate = None, reload = None\<rparr>"
  have post: "request_method (request ?env) \<noteq> ''GET''" by simp
  have init: "createRequestInit ?env (request ?env) = Inr ()" by simp
  have decoded: "fetchAndDecode (fetch ?env) (decode_result ?env)
      (singleFetchUrl (request_url (request ?env))) (Some ()) initial_state =
      (Inr ?result, \<lparr>singleFetchPromise = None,
         fetch_calls = [(singleFetchUrl (request_url (request ?env)), Some ())]\<rparr>)"
    by (simp add: fetchAndDecode_def invariant_def initial_state_def)
  have untagged: "data ?result = None" "error ?result = None" "redirect ?result = None"
    by simp_all
  from unwrap_untagged_action_result [OF post init decoded untagged, of ?routeId]
  show ?thesis by simp
qed

lemma headers_set_legal:
  assumes "normalize_header_value v = v" and "legal_header_value v"
  shows "headers_set name v headers = Inr (searchParams_set name v headers)"
  using assms by (simp add: headers_set_def)

lemma status_in_range:
  assumes "200 \<le> s" and "s \<le> 599"
  shows "(s::int) mod 65536 = s"
  using assms by simp

text \<open>
  C6, as amended. A result with the \<^verbatim>\<open>redirect\<close> key (and no \<^verbatim>\<open>error\<close> key, which is looked
  at first), whose status lies in 200..599 and whose target is a legal header value
  without leading or trailing whitespace, unwraps to a redirect response that carries the
  target as \<^verbatim>\<open>Location\<close> and the result's status; the header \<^verbatim>\<open>X-Remix-Revalidate\<close> is
  present exactly when \<^verbatim>\<open>revalidate\<close> is true and \<^verbatim>\<open>X-Remix-Reload-Document\<close> exactly when
  \<^verbatim>\<open>reload\<close> is true.
\<close>

theorem unwrap_redirect:
  assumes "error result = None" and "redirect result = Some target" and "status result = Some s"
    and "200 \<le> s" and "s \<le> 599"
    and "normalize_header_value target = target" and "legal_header_value target"
  shows "\<exists>headers.
           unwrapSingleFetchResult result routeId = Inr (Response s headers) \<and>
           headers =
             (if revalidate result = Some True then [(''X-Remix-Revalidate'', ''yes'')] else []) @
             (if reload result = Some True then [(''X-Remix-Reload-Document'', ''yes'')] else []) @
             [(''Location'', target)] \<and>
           map_of headers ''Location'' = Some target \<and>
           (''X-Remix-Revalidate'' \<in> fst ` set headers \<longleftrightarrow> revalidate result = Some True) \<and>
           (''X-Remix-Reload-Document'' \<in> fst ` set headers \<longleftrightarrow> reload result = Some True)"
proof -
  have range: "s mod 65536 = s" using assms(4,5) by (rule status_in_range)
  have set: "headers_set ''Location'' target headers =
      Inr (searchParams_set ''Location'' target headers)" for headers
    using assms(6,7) by (rule headers_set_legal)
  show ?thesis
    using assms(1-5)
    by (simp add: unwrapSingleFetchResult_def redirect_response_def Let_def set range)
qed

theorem unwrap_redirect_witness:
  "unwrapSingleFetchResult
     \<lparr>data = None, error = None, redirect = Some ''/login'', status = Some 302,
      revalidate = Some True, reload = Some False\<rparr> ''routes/a'' =
     Inr (Response 302 [(''X-Remix-Revalidate'', ''yes''), (''Location'', ''/login'')]) \<and>
   unwrapSingleFetchResult
     \<lparr>data = None, error = None, redirect = Some ''/login'', status = Some 303,
      revalidate = Some False, reload = Some True\<rparr> ''routes/a'' =
     Inr (Response 303 [(''X-Remix-Reload-Document'', ''yes''), (''Location'', ''/login'')]) \<and>
   unwrapSingleFetchResult
     \<lparr>data = None, error = None, redirect = Some ''/login'', status = Some 301,
      revalidate = Some False, reload = Some False\<rparr> ''routes/a'' =
     Inr (Response 301 [(''Location'', ''/login'')])"
proof -
  have target: "normalize_header_value ''/login'' = ''/login''" "legal_header_value ''/login''"
    by (simp_all add: normalize_header_value_def http_whitespace_def legal_header_value_def)
  from
    unwrap_redirect [of "\<lparr>data = None, error = None, redirect = Some ''/login'',
      status = Some 302, revalidate = Some True, reload = Some False\<rparr>" "''/login''" 302
      "''routes/a''", OF _ _ _ _ _ target]
    unwrap_redirect [of "\<lparr>data = None, error = None, redirect = Some ''/login'',
      status = Some 303, revalidate = Some False, reload = Some True\<rparr>" "''/login''" 303
      "''routes/a''", OF _ _ _ _ _ target]
    unwrap_redirect [of "\<lparr>data = None, error = None, redirect = Some ''/login'',
      status = Some 301, revalidate = Some False, reload = Some False\<rparr>" "''/login''" 301
      "''routes/a''", OF _ _ _ _ _ target]
  show ?thesis by simp
qed

text \<open>
  The claim as it was stated has no condition on the status. A redirect result with
  status 99 does not unwrap to a redirect response: building the response throws a
  \<^verbatim>\<open>RangeError\<close>.
\<close>

theorem unwrap_redirect_status_counterexample:
  "unwrapSingleFetchResult
     \<lparr>data = None, error = None, redirect = Some ''/login'', status = Some 99,
      revalidate = Some False, reload = Some False\<rparr> ''routes/a'' =
   Inl (RangeError ''The status provided is outside the range [200, 599].'')"
  by (simp add: unwrapSingleFetchResult_def redirect_response_def Let_def headers_set_def
      normalize_header_value_def http_whitespace_def legal_header_value_def)

subsection \<open>The shared promise\<close>

lemma fetchAndDecode_fetch_calls:
  "fetch_calls (snd (fetchAndDecode f decode u init st)) = fetch_calls st @ [(u, init)]"
  by (simp add: fetchAndDecode_def Let_def split: sum.splits)

lemma fetchAndDecode_promise:
  "singleFetchPromise (snd (fetchAndDecode f decode u init st)) = singleFetchPromise st"
  by (simp add: fetchAndDecode_def Let_def split: sum.splits)

lemma fetchAndDecode_state:
  "snd (fetchAndDecode f decode u init st) = st\<lparr>fetch_calls := fetch_calls st @ [(u, init)]\<rparr>"
  by (simp add: fetchAndDecode_def Let_def split: sum.splits)

lemma fetchAndDecode_bad_content_type:
  assumes "f u init = Inr res"
    and "\<forall>ct. contentType res = Some ct \<longrightarrow> \<not> str_includes ct ''text/x-turbo''"
  shows "fst (fetchAndDecode f decode u init st) = Inl (Error ''Expected a text/x-turbo response'')"
proof (cases "contentType res")
  case None
  with assms(1) show ?thesis by (simp add: fetchAndDecode_def invariant_def)
next
  case (Some ct)
  with assms show ?thesis by (simp add: fetchAndDecode_def invariant_def)
qed

lemma awaitSingleFetchPromise_set:
  "singleFetchPromise st = Some p \<Longrightarrow> awaitSingleFetchPromise env st = (p, st)"
  by (simp add: awaitSingleFetchPromise_def)

lemma run_singleFetch_latched:
  assumes "request_method (request env) = ''GET''" and "singleFetchPromise st = Some p"
  shows "run_singleFetch env routeIds st = (map (loaderOutcome p) routeIds, st)"
  using assms
  by (induction routeIds)
    (simp_all add: singleFetch_def singleFetch_loader_def awaitSingleFetchPromise_set)

lemma run_singleFetch_first:
  assumes get: "request_method (request env) = ''GET''"
    and make: "makeSingleFetchCall env initial_state = (p, st')"
  shows "run_singleFetch env (routeId # routeIds) initial_state =
           (map (loaderOutcome p) (routeId # routeIds), st'\<lparr>singleFetchPromise := Some p\<rparr>)"
proof -
  have first: "singleFetch env routeId initial_state =
      (loaderOutcome p routeId, st'\<lparr>singleFetchPromise := Some p\<rparr>)"
    using get make
    by (simp add: singleFetch_def singleFetch_loader_def awaitSingleFetchPromise_def
        initial_state_def)
  have rest: "run_singleFetch env routeIds (st'\<lparr>singleFetchPromise := Some p\<rparr>) =
      (map (loaderOutcome p) routeIds, st'\<lparr>singleFetchPromise := Some p\<rparr>)"
    by (rule run_singleFetch_latched [OF get]) simp
  show ?thesis by (simp add: first rest)
qed

lemma makeSingleFetchCall_ok:
  assumes "addRevalidationParam (manifest env) (routeModules env) (matches env)
             (stripIndexParam (request_url (request env))) = Inr u"
  shows "makeSingleFetchCall env initial_state =
           (fst (fetchAndDecode (fetch env) (decode_results env) (singleFetchUrl u) None initial_state),
            \<lparr>singleFetchPromise = None, fetch_calls = [(singleFetchUrl u, None)]\<rparr>)"
proof -
  have "makeSingleFetchCall env initial_state =
          fetchAndDecode (fetch env) (decode_results env) (singleFetchUrl u) None initial_state"
    using assms by (simp add: makeSingleFetchCall_def)
  moreover have "snd (fetchAndDecode (fetch env) (decode_results env) (singleFetchUrl u) None
      initial_state) = \<lparr>singleFetchPromise = None, fetch_calls = [(singleFetchUrl u, None)]\<rparr>"
    by (simp add: fetchAndDecode_state initial_state_def)
  ultimately show ?thesis by (simp add: prod_eq_iff)
qed



subsection \<open>One network call for a navigation's loaders\<close>

subsection \<open>A response without the content-type marker\<close>

text \<open>
  C3. When the fetched response has no \<^verbatim>\<open>Content-Type\<close>, or one that does not include
  \<^verbatim>\<open>text/x-turbo\<close>, \<^verbatim>\<open>fetchAndDecode\<close> throws the mismatch error without decoding; on a
  loader request every call of \<^verbatim>\<open>singleFetch\<close> then fails with that error, and so does the
  call on an action request. No caller gets a result.
\<close>

theorem content_type_mismatch_fails:
  assumes bad: "\<forall>ct. contentType res = Some ct \<longrightarrow> \<not> str_includes ct ''text/x-turbo''"
  shows "(f u0 init0 = Inr res \<longrightarrow>
            fst (fetchAndDecode f decode u0 init0 st) = Inl (Error ''Expected a text/x-turbo response''))
       \<and> (request_method (request env) = ''GET'' \<and>
          addRevalidationParam (manifest env) (routeModules env) (matches env)
            (stripIndexParam (request_url (request env))) = Inr u \<and>
          fetch env (singleFetchUrl u) None = Inr res \<longrightarrow>
            fst (run_singleFetch env routeIds initial_state) =
              map (\<lambda>routeId. Inl (Error ''Expected a text/x-turbo response'')) routeIds)
       \<and> (request_method (request env) \<noteq> ''GET'' \<and>
          createRequestInit env (request env) = Inr init \<and>
          fetch env (singleFetchUrl (request_url (request env))) (Some init) = Inr res \<longrightarrow>
            fst (singleFetch env routeId st) = Inl (Error ''Expected a text/x-turbo response''))"
proof (intro conjI impI)
  assume "f u0 init0 = Inr res"
  then show "fst (fetchAndDecode f decode u0 init0 st) = Inl (Error ''Expected a text/x-turbo response'')"
    using bad by (rule fetchAndDecode_bad_content_type)
next
  assume a: "request_method (request env) = ''GET'' \<and>
          addRevalidationParam (manifest env) (routeModules env) (matches env)
            (stripIndexParam (request_url (request env))) = Inr u \<and>
          fetch env (singleFetchUrl u) None = Inr res"
  then have get: "request_method (request env) = ''GET''"
    and u: "addRevalidationParam (manifest env) (routeModules env) (matches env)
            (stripIndexParam (request_url (request env))) = Inr u"
    and f: "fetch env (singleFetchUrl u) None = Inr res" by simp_all
  let ?e = "Inl (Error ''Expected a text/x-turbo response'') :: jsval + SingleFetchResults"
  have p: "fst (fetchAndDecode (fetch env) (decode_results env) (singleFetchUrl u) None
                   initial_state) = ?e"
    using f bad by (rule fetchAndDecode_bad_content_type)
  show "fst (run_singleFetch env routeIds initial_state) =
              map (\<lambda>routeId. Inl (Error ''Expected a text/x-turbo response'')) routeIds"
  proof (cases routeIds)
    case Nil
    then show ?thesis by simp
  next
    case (Cons r rs)
    show ?thesis
      unfolding Cons
      using run_singleFetch_first [OF get makeSingleFetchCall_ok [OF u], of r rs]
      by (simp add: p loaderOutcome_def)
  qed
next
  assume a: "request_method (request env) \<noteq> ''GET'' \<and>
          createRequestInit env (request env) = Inr init \<and>
          fetch env (singleFetchUrl (request_url (request env))) (Some init) = Inr res"
  then have f: "fetch env (singleFetchUrl (request_url (request env))) (Some init) = Inr res"
    by simp
  have "fst (fetchAndDecode (fetch env) (decode_result env)
          (singleFetchUrl (request_url (request env))) (Some init) st) =
        Inl (Error ''Expected a text/x-turbo response'')"
    using f bad by (rule fetchAndDecode_bad_content_type)
  then show "fst (singleFetch env routeId st) = Inl (Error ''Expected a text/x-turbo response'')"
    using a by (auto simp: singleFetch_def singleFetch_action_def Let_def split: prod.splits sum.splits)
qed

theorem content_type_mismatch_fails_witness:
  "fst (run_singleFetch
     \<lparr>fetch = (\<lambda>u init. Inr \<lparr>contentType = Some ''text/html; charset=utf-8'', body = ()\<rparr>),
      decode_result = (\<lambda>b plugins. Inr \<lparr>data = Some (Str ''hello''), error = None,
          redirect = None, status = None, revalidate = None, reload = None\<rparr>),
      decode_results = (\<lambda>b plugins. Inr [''root'' \<mapsto>
         \<lparr>data = Some (Str ''hello''), error = None, redirect = None, status = None,
          revalidate = None, reload = None\<rparr>]),
      createRequestInit = (\<lambda>r. Inr ()),
      manifest = \<lparr>routes = [''root'' \<mapsto> \<lparr>hasLoader = True\<rparr>, ''routes/a'' \<mapsto> \<lparr>hasLoader = True\<rparr>]\<rparr>,
      routeModules = (Map.empty :: unit route_modules),
      request = \<lparr>request_method = ''GET'',
        request_url = \<lparr>origin = ''https://example.com'', pathname = ''/a'',
          searchParams = [], hash = ''''\<rparr>\<rparr>,
      matches = [\<lparr>route_id = ''root'', shouldLoad = True\<rparr>, \<lparr>route_id = ''routes/a'', shouldLoad = True\<rparr>]\<rparr>
     [''root'', ''routes/a''] initial_state) =
   [Inl (Error ''Expected a text/x-turbo response''),
    Inl (Error ''Expected a text/x-turbo response'')]"
  (is "fst (run_singleFetch ?env ?ids initial_state) = ?outcomes")
proof -
  let ?res = "\<lparr>contentType = Some ''text/html; charset=utf-8'', body = ()\<rparr>"
  let ?u = "\<lparr>origin = ''https://example.com'', pathname = ''/a'', searchParams = [], hash = ''''\<rparr>"
  have bad: "\<forall>ct. contentType ?res = Some ct \<longrightarrow> \<not> str_includes ct ''text/x-turbo''"
    by simp
  have get: "request_method (request ?env) = ''GET''" by simp
  have u: "addRevalidationParam (manifest ?env) (routeModules ?env) (matches ?env)
             (stripIndexParam (request_url (request ?env))) = Inr ?u"
    by (simp add: addRevalidationParam_def has_shouldRevalidate_def stripIndexParam_def
        searchParams_getAll_def searchParams_delete_def)
  have f: "fetch ?env (singleFetchUrl ?u) None = Inr ?res" by simp
  from content_type_mismatch_fails [OF bad, where env = ?env and u = ?u and routeIds = ?ids]
  have "request_method (request ?env) = ''GET'' \<and>
        addRevalidationParam (manifest ?env) (routeModules ?env) (matches ?env)
          (stripIndexParam (request_url (request ?env))) = Inr ?u \<and>
        fetch ?env (singleFetchUrl ?u) None = Inr ?res \<longrightarrow>
        fst (run_singleFetch ?env ?ids initial_state) =
          map (\<lambda>routeId. Inl (Error ''Expected a text/x-turbo response'')) ?ids"
    by blast
  with get u f
  have "fst (run_singleFetch ?env ?ids initial_state) =
          map (\<lambda>routeId. Inl (Error ''Expected a text/x-turbo response'')) ?ids"
    by blast
  then show ?thesis by (simp only: list.map)
qed

subsection \<open>The first call of a navigation\<close>

lemma fetchAndDecode_passes:
  assumes "f u init = Inr res"
    and "invariant (map_option (\<lambda>ct. str_includes ct ''text/x-turbo'') (contentType res))
           ''Expected a text/x-turbo response'' = Inr ()"
  shows "fst (fetchAndDecode f decode u init st) = decode (body res) [errorResponsePlugin]"
  using assms by (simp add: fetchAndDecode_def)

lemma awaitSingleFetchPromise_first:
  assumes u: "addRevalidationParam (manifest env) (routeModules env) (matches env)
             (stripIndexParam (request_url (request env))) = Inr u"
    and f: "fetch env (singleFetchUrl u) None = Inr res"
    and ok: "invariant (map_option (\<lambda>ct. str_includes ct ''text/x-turbo'') (contentType res))
           ''Expected a text/x-turbo response'' = Inr ()"
    and dec: "decode_results env (body res) [errorResponsePlugin] = p"
  shows "awaitSingleFetchPromise env initial_state =
           (p, \<lparr>singleFetchPromise = Some p, fetch_calls = [(singleFetchUrl u, None)]\<rparr>)"
proof -
  have "fst (fetchAndDecode (fetch env) (decode_results env) (singleFetchUrl u) None
          initial_state) = p"
    using fetchAndDecode_passes [of "fetch env" _ _ res "decode_results env" initial_state] f ok dec
    by simp
  then have "makeSingleFetchCall env initial_state =
      (p, \<lparr>singleFetchPromise = None, fetch_calls = [(singleFetchUrl u, None)]\<rparr>)"
    using makeSingleFetchCall_ok [OF u] by simp
  then show ?thesis
    by (simp add: awaitSingleFetchPromise_def initial_state_def)
qed

lemma singleFetch_loader_first:
  assumes get: "request_method (request env) = ''GET''"
    and u: "addRevalidationParam (manifest env) (routeModules env) (matches env)
             (stripIndexParam (request_url (request env))) = Inr u"
    and f: "fetch env (singleFetchUrl u) None = Inr res"
    and ok: "invariant (map_option (\<lambda>ct. str_includes ct ''text/x-turbo'') (contentType res))
           ''Expected a text/x-turbo response'' = Inr ()"
    and dec: "decode_results env (body res) [errorResponsePlugin] = p"
  shows "singleFetch env routeId initial_state =
           (loaderOutcome p routeId,
            \<lparr>singleFetchPromise = Some p, fetch_calls = [(singleFetchUrl u, None)]\<rparr>)"
  using get awaitSingleFetchPromise_first [OF u f ok dec]
  by (simp add: singleFetch_def singleFetch_loader_def)

subsection \<open>A route without a result\<close>




subsection \<open>Error results\<close>

lemma errorResponsePlugin_Obj:
  "errorResponsePlugin ''ErrorResponse'' (Obj props) =
     Inr (Some (new_ErrorResponseImpl (own_property props ''status'')
       (own_property props ''statusText'') (own_property props ''data'')
       (own_property props ''internal'' = Bool True)))"
  by (simp add: errorResponsePlugin_def)

lemma decode_ErrorResponse:
  assumes "decode_props [errorResponsePlugin] entries = Inr props"
  shows "decode_value [errorResponsePlugin] (ECustom ''ErrorResponse'' (EObj entries)) =
     Inr (new_ErrorResponseImpl (own_property props ''status'')
       (own_property props ''statusText'') (own_property props ''data'')
       (own_property props ''internal'' = Bool True))"
  using assms by (simp add: errorResponsePlugin_Obj)

lemma decode_encoded_result_error:
  assumes "decode_encoded_result plugins er = Inr result"
    and "encoded_error er = Some e" and "decode_value plugins e = Inr v"
  shows "error result = Some v"
  using assms by (auto simp: decode_encoded_result_def split: sum.splits)

lemma decode_encoded_result_error_only:
  assumes "encoded_data er = None" and "encoded_error er = Some e"
    and "decode_value plugins e = Inr v"
  shows "\<exists>result. decode_encoded_result plugins er = Inr result \<and> error result = Some v"
  using assms by (simp add: decode_encoded_result_def)

lemma decode_encoded_results_entry:
  assumes "decode_encoded_results plugins ers = Inr results" and "map_of ers routeId = Some er"
  shows "\<exists>result. decode_encoded_result plugins er = Inr result \<and> results routeId = Some result"
  using assms
proof (induction ers arbitrary: results)
  case Nil
  then show ?case by simp
next
  case (Cons entry ers)
  from Cons.prems(1) obtain result rest where
    entry: "decode_encoded_result plugins (snd entry) = Inr result"
    and rest: "decode_encoded_results plugins ers = Inr rest"
    and results: "results = rest(fst entry \<mapsto> result)"
    by (auto split: sum.splits)
  show ?case
  proof (cases "fst entry = routeId")
    case True
    with Cons.prems(2) have "er = snd entry" by (cases entry) simp
    with entry results True show ?thesis by simp
  next
    case False
    with Cons.prems(2) have "map_of ers routeId = Some er" by (cases entry) simp
    from Cons.IH [OF rest this] results False show ?thesis by simp
  qed
qed

lemma unwrap_error:
  "error result = Some e \<Longrightarrow> unwrapSingleFetchResult result routeId = Inl e"
  by (simp add: unwrapSingleFetchResult_def)

lemma loaderOutcome_error:
  assumes "results routeId = Some result" and "error result = Some e"
  shows "loaderOutcome (Inr results) routeId = Inl e"
  using assms by (simp add: loaderOutcome_def results_get_def unwrap_error)

lemma singleFetch_action_decoded:
  assumes post: "request_method (request env) \<noteq> ''GET''"
    and init: "createRequestInit env (request env) = Inr init"
    and f: "fetch env (singleFetchUrl (request_url (request env))) (Some init) = Inr res"
    and ok: "invariant (map_option (\<lambda>ct. str_includes ct ''text/x-turbo'') (contentType res))
           ''Expected a text/x-turbo response'' = Inr ()"
    and dec: "decode_result env (body res) [errorResponsePlugin] = Inr result"
  shows "fst (singleFetch env routeId st) = unwrapSingleFetchResult result routeId"
proof -
  have "fst (fetchAndDecode (fetch env) (decode_result env)
          (singleFetchUrl (request_url (request env))) (Some init) st) = Inr result"
    using fetchAndDecode_passes [of "fetch env" _ _ res "decode_result env" st] f ok dec
    by simp
  then show ?thesis
    using post init
    by (auto simp: singleFetch_def singleFetch_action_def Let_def split: prod.splits sum.splits)
qed

text \<open>
  C7. A result with the \<^verbatim>\<open>error\<close> key unwraps by throwing exactly the value under that key,
  for the action caller and for a loader caller alike. The plugin that \<^verbatim>\<open>fetchAndDecode\<close>
  registers turns a value tagged \<^verbatim>\<open>ErrorResponse\<close> into the \<^verbatim>\<open>ErrorResponseImpl\<close> that the
  router's constructor builds from its \<^verbatim>\<open>status\<close>, \<^verbatim>\<open>statusText\<close> and \<^verbatim>\<open>data\<close>, with the
  internal flag set exactly when \<^verbatim>\<open>internal\<close> is \<^verbatim>\<open>true\<close>; for a string status text and data
  that is no \<^verbatim>\<open>Error\<close> instance these are stored as they are. So when the content-type
  assertion passes and the body encodes, under \<^verbatim>\<open>error\<close>, an object tagged
  \<^verbatim>\<open>ErrorResponse\<close>, the call of \<^verbatim>\<open>singleFetch\<close> throws that reconstructed object, on an
  action request and on the first loader call of a navigation.
\<close>

theorem unwrap_error_reconstructed:
  "(error result = Some e \<longrightarrow> unwrapSingleFetchResult result routeId = Inl e) \<and>
   (results routeId = Some result \<and> error result = Some e \<longrightarrow>
      loaderOutcome (Inr results) routeId = Inl e) \<and>
   errorResponsePlugin ''ErrorResponse'' (Obj props) =
     Inr (Some (new_ErrorResponseImpl (own_property props ''status'')
       (own_property props ''statusText'') (own_property props ''data'')
       (own_property props ''internal'' = Bool True))) \<and>
   (instanceof_Error_toString d = None \<longrightarrow>
      new_ErrorResponseImpl s (Str t) d i = ErrorResponseImpl s (Str t) d i None) \<and>
   (request_method (request env) \<noteq> ''GET'' \<and>
    createRequestInit env (request env) = Inr init \<and>
    fetch env (singleFetchUrl (request_url (request env))) (Some init) = Inr res \<and>
    invariant (map_option (\<lambda>ct. str_includes ct ''text/x-turbo'') (contentType res))
      ''Expected a text/x-turbo response'' = Inr () \<and>
    (\<forall>plugins. decode_result env (body res) plugins = decode_encoded_result plugins er) \<and>
    encoded_data er = None \<and>
    encoded_error er = Some (ECustom ''ErrorResponse'' (EObj entries)) \<and>
    decode_props [errorResponsePlugin] entries = Inr props \<longrightarrow>
      fst (singleFetch env routeId st) =
        Inl (new_ErrorResponseImpl (own_property props ''status'')
          (own_property props ''statusText'') (own_property props ''data'')
          (own_property props ''internal'' = Bool True))) \<and>
   (request_method (request env) = ''GET'' \<and>
    addRevalidationParam (manifest env) (routeModules env) (matches env)
      (stripIndexParam (request_url (request env))) = Inr u \<and>
    fetch env (singleFetchUrl u) None = Inr res \<and>
    invariant (map_option (\<lambda>ct. str_includes ct ''text/x-turbo'') (contentType res))
      ''Expected a text/x-turbo response'' = Inr () \<and>
    (\<forall>plugins. decode_results env (body res) plugins = decode_encoded_results plugins ers) \<and>
    decode_encoded_results [errorResponsePlugin] ers = Inr results \<and>
    map_of ers routeId = Some er \<and>
    encoded_error er = Some (ECustom ''ErrorResponse'' (EObj entries)) \<and>
    decode_props [errorResponsePlugin] entries = Inr props \<longrightarrow>
      fst (singleFetch env routeId initial_state) =
        Inl (new_ErrorResponseImpl (own_property props ''status'')
          (own_property props ''statusText'') (own_property props ''data'')
          (own_property props ''internal'' = Bool True)))"
  (is "?unwrap \<and> ?lookup \<and> ?plugin \<and> ?stored \<and> (?action \<longrightarrow> ?thrown) \<and> (?loader \<longrightarrow> ?thrown')")
proof (intro conjI impI)
  show ?plugin by (rule errorResponsePlugin_Obj)
next
  assume "instanceof_Error_toString d = None"
  then show "new_ErrorResponseImpl s (Str t) d i = ErrorResponseImpl s (Str t) d i None"
    by (simp add: new_ErrorResponseImpl_def)
next
  assume "error result = Some e"
  then show "unwrapSingleFetchResult result routeId = Inl e" by (rule unwrap_error)
next
  assume "results routeId = Some result \<and> error result = Some e"
  then show "loaderOutcome (Inr results) routeId = Inl e" by (simp add: loaderOutcome_error)
next
  let ?v = "new_ErrorResponseImpl (own_property props ''status'')
          (own_property props ''statusText'') (own_property props ''data'')
          (own_property props ''internal'' = Bool True)"
  assume a: ?action
  then have post: "request_method (request env) \<noteq> ''GET''"
    and init: "createRequestInit env (request env) = Inr init"
    and f: "fetch env (singleFetchUrl (request_url (request env))) (Some init) = Inr res"
    and ok: "invariant (map_option (\<lambda>ct. str_includes ct ''text/x-turbo'') (contentType res))
      ''Expected a text/x-turbo response'' = Inr ()"
    and dec: "decode_result env (body res) [errorResponsePlugin] =
                decode_encoded_result [errorResponsePlugin] er"
    and nodata: "encoded_data er = None"
    and err: "encoded_error er = Some (ECustom ''ErrorResponse'' (EObj entries))"
    and props: "decode_props [errorResponsePlugin] entries = Inr props"
    by simp_all
  from decode_encoded_result_error_only [OF nodata err decode_ErrorResponse [OF props]]
  obtain r where r: "decode_encoded_result [errorResponsePlugin] er = Inr r"
    and e: "error r = Some ?v" by blast
  from dec r have "decode_result env (body res) [errorResponsePlugin] = Inr r" by simp
  from singleFetch_action_decoded [OF post init f ok this, of routeId st] unwrap_error [OF e]
  show ?thrown by simp
next
  let ?v = "new_ErrorResponseImpl (own_property props ''status'')
          (own_property props ''statusText'') (own_property props ''data'')
          (own_property props ''internal'' = Bool True)"
  assume a: ?loader
  then have get: "request_method (request env) = ''GET''"
    and u: "addRevalidationParam (manifest env) (routeModules env) (matches env)
      (stripIndexParam (request_url (request env))) = Inr u"
    and f: "fetch env (singleFetchUrl u) None = Inr res"
    and ok: "invariant (map_option (\<lambda>ct. str_includes ct ''text/x-turbo'') (contentType res))
      ''Expected a text/x-turbo response'' = Inr ()"
    and dec: "decode_results env (body res) [errorResponsePlugin] =
                decode_encoded_results [errorResponsePlugin] ers"
    and all: "decode_encoded_results [errorResponsePlugin] ers = Inr results"
    and entry: "map_of ers routeId = Some er"
    and err: "encoded_error er = Some (ECustom ''ErrorResponse'' (EObj entries))"
    and props: "decode_props [errorResponsePlugin] entries = Inr props"
    by simp_all
  from decode_encoded_results_entry [OF all entry]
  obtain r where r: "decode_encoded_result [errorResponsePlugin] er = Inr r"
    and found: "results routeId = Some r" by blast
  have e: "error r = Some ?v"
    using r err decode_ErrorResponse [OF props] by (rule decode_encoded_result_error)
  from dec all have "decode_results env (body res) [errorResponsePlugin] = Inr results" by simp
  moreover have "loaderOutcome (Inr results) routeId = Inl ?v"
    using found e by (rule loaderOutcome_error)
  ultimately show ?thrown'
    using singleFetch_loader_first [OF get u f ok, of "Inr results" routeId] by simp
qed

theorem unwrap_error_reconstructed_witness:
  "fst (singleFetch
     \<lparr>fetch = (\<lambda>u init. Inr \<lparr>contentType = Some ''text/x-turbo'',
         body = \<lparr>encoded_data = None,
           encoded_error = Some (ECustom ''ErrorResponse''
             (EObj [(''status'', ENum 404), (''statusText'', EStr ''Not Found''),
                    (''data'', EStr ''gone''), (''internal'', EBool True)])),
           encoded_redirect = None, encoded_status = None, encoded_revalidate = None,
           encoded_reload = None\<rparr>\<rparr>),
      decode_result = (\<lambda>b plugins. decode_encoded_result plugins b),
      decode_results = (\<lambda>b plugins. Inl (Error ''unused'')),
      createRequestInit = (\<lambda>r. Inr ()),
      manifest = \<lparr>routes = [''routes/a'' \<mapsto> \<lparr>hasLoader = True\<rparr>]\<rparr>,
      routeModules = (Map.empty :: unit route_modules),
      request = \<lparr>request_method = ''POST'',
        request_url = \<lparr>origin = ''https://example.com'', pathname = ''/a'',
          searchParams = [], hash = ''''\<rparr>\<rparr>,
      matches = [\<lparr>route_id = ''routes/a'', shouldLoad = True\<rparr>]\<rparr>
     ''routes/a'' initial_state) =
   Inl (ErrorResponseImpl (Num 404) (Str ''Not Found'') (Str ''gone'') True None) \<and>
   fst (singleFetch
     \<lparr>fetch = (\<lambda>u init. Inr \<lparr>contentType = Some ''text/x-turbo'',
         body = [(''root'', \<lparr>encoded_data = Some (EStr ''hello''), encoded_error = None,
             encoded_redirect = None, encoded_status = None, encoded_revalidate = None,
             encoded_reload = None\<rparr>),
           (''routes/a'', \<lparr>encoded_data = None,
             encoded_error = Some (ECustom ''ErrorResponse''
               (EObj [(''status'', ENum 500), (''data'', EError ''boom'')])),
             encoded_redirect = None, encoded_status = None, encoded_revalidate = None,
             encoded_reload = None\<rparr>)]\<rparr>),
      decode_result = (\<lambda>b plugins. Inl (Error ''unused'')),
      decode_results = (\<lambda>b plugins. decode_encoded_results plugins b),
      createRequestInit = (\<lambda>r. Inr ()),
      manifest = \<lparr>routes = [''root'' \<mapsto> \<lparr>hasLoader = True\<rparr>, ''routes/a'' \<mapsto> \<lparr>hasLoader = True\<rparr>]\<rparr>,
      routeModules = (Map.empty :: unit route_modules),
      request = \<lparr>request_method = ''GET'',
        request_url = \<lparr>origin = ''https://example.com'', pathname = ''/a'',
          searchParams = [], hash = ''''\<rparr>\<rparr>,
      matches = [\<lparr>route_id = ''root'', shouldLoad = True\<rparr>, \<lparr>route_id = ''routes/a'', shouldLoad = True\<rparr>]\<rparr>
     ''routes/a'' initial_state) =
   Inl (ErrorResponseImpl (Num 500) (Str '''') (Str ''Error: boom'') False (Some (Error ''boom'')))"
  (is "fst (singleFetch ?env ?routeId initial_state) = ?err \<and>
       fst (singleFetch ?env' ?routeId initial_state) = ?err'")
proof
  let ?entries = "[(''status'', ENum 404), (''statusText'', EStr ''Not Found''),
                    (''data'', EStr ''gone''), (''internal'', EBool True)]"
  let ?props = "[(''status'', Num 404), (''statusText'', Str ''Not Found''),
                    (''data'', Str ''gone''), (''internal'', Bool True)]"
  let ?er = "\<lparr>encoded_data = None,
           encoded_error = Some (ECustom ''ErrorResponse'' (EObj ?entries)),
           encoded_redirect = None, encoded_status = None, encoded_revalidate = None,
           encoded_reload = None\<rparr>"
  let ?res = "\<lparr>contentType = Some ''text/x-turbo'', body = ?er\<rparr>"
  have hyps: "request_method (request ?env) \<noteq> ''GET'' \<and>
    createRequestInit ?env (request ?env) = Inr () \<and>
    fetch ?env (singleFetchUrl (request_url (request ?env))) (Some ()) = Inr ?res \<and>
    invariant (map_option (\<lambda>ct. str_includes ct ''text/x-turbo'') (contentType ?res))
      ''Expected a text/x-turbo response'' = Inr () \<and>
    (\<forall>plugins. decode_result ?env (body ?res) plugins = decode_encoded_result plugins ?er) \<and>
    encoded_data ?er = None \<and>
    encoded_error ?er = Some (ECustom ''ErrorResponse'' (EObj ?entries)) \<and>
    decode_props [errorResponsePlugin] ?entries = Inr ?props"
    by (simp add: invariant_def)
  have built: "Inl (new_ErrorResponseImpl (own_property ?props ''status'')
          (own_property ?props ''statusText'') (own_property ?props ''data'')
          (own_property ?props ''internal'' = Bool True)) = ?err"
    by (simp add: new_ErrorResponseImpl_def own_property_def)
  from unwrap_error_reconstructed [where env = ?env and init = "()" and res = ?res
      and er = ?er and entries = ?entries and props = ?props and routeId = ?routeId
      and st = initial_state]
  have "request_method (request ?env) \<noteq> ''GET'' \<and>
    createRequestInit ?env (request ?env) = Inr () \<and>
    fetch ?env (singleFetchUrl (request_url (request ?env))) (Some ()) = Inr ?res \<and>
    invariant (map_option (\<lambda>ct. str_includes ct ''text/x-turbo'') (contentType ?res))
      ''Expected a text/x-turbo response'' = Inr () \<and>
    (\<forall>plugins. decode_result ?env (body ?res) plugins = decode_encoded_result plugins ?er) \<and>
    encoded_data ?er = None \<and>
    encoded_error ?er = Some (ECustom ''ErrorResponse'' (EObj ?entries)) \<and>
    decode_props [errorResponsePlugin] ?entries = Inr ?props \<longrightarrow>
      fst (singleFetch ?env ?routeId initial_state) =
        Inl (new_ErrorResponseImpl (own_property ?props ''status'')
          (own_property ?props ''statusText'') (own_property ?props ''data'')
          (own_property ?props ''internal'' = Bool True))"
    by blast
  with hyps have "fst (singleFetch ?env ?routeId initial_state) =
        Inl (new_ErrorResponseImpl (own_property ?props ''status'')
          (own_property ?props ''statusText'') (own_property ?props ''data'')
          (own_property ?props ''internal'' = Bool True))"
    by blast
  with built show "fst (singleFetch ?env ?routeId initial_state) = ?err" by (simp only:)
next
  let ?entries = "[(''status'', ENum 500), (''data'', EError ''boom'')]"
  let ?props = "[(''status'', Num 500), (''data'', Error ''boom'')]"
  let ?er = "\<lparr>encoded_data = None,
             encoded_error = Some (ECustom ''ErrorResponse'' (EObj ?entries)),
             encoded_redirect = None, encoded_status = None, encoded_revalidate = None,
             encoded_reload = None\<rparr>"
  let ?ers = "[(''root'', \<lparr>encoded_data = Some (EStr ''hello''), encoded_error = None,
             encoded_redirect = None, encoded_status = None, encoded_revalidate = None,
             encoded_reload = None\<rparr>), (''routes/a'', ?er)]"
  let ?res = "\<lparr>contentType = Some ''text/x-turbo'', body = ?ers\<rparr>"
  let ?u = "\<lparr>origin = ''https://example.com'', pathname = ''/a'', searchParams = [], hash = ''''\<rparr>"
  have "\<exists>results. decode_encoded_results [errorResponsePlugin] ?ers = Inr results"
    by (simp add: decode_encoded_result_def errorResponsePlugin_def)
  then obtain results where all: "decode_encoded_results [errorResponsePlugin] ?ers = Inr results"
    by blast
  have u: "addRevalidationParam (manifest ?env') (routeModules ?env') (matches ?env')
      (stripIndexParam (request_url (request ?env'))) = Inr ?u"
    by (simp add: addRevalidationParam_def has_shouldRevalidate_def stripIndexParam_def
        searchParams_getAll_def searchParams_delete_def)
  have hyps: "request_method (request ?env') = ''GET'' \<and>
    fetch ?env' (singleFetchUrl ?u) None = Inr ?res \<and>
    invariant (map_option (\<lambda>ct. str_includes ct ''text/x-turbo'') (contentType ?res))
      ''Expected a text/x-turbo response'' = Inr () \<and>
    (\<forall>plugins. decode_results ?env' (body ?res) plugins = decode_encoded_results plugins ?ers) \<and>
    map_of ?ers ?routeId = Some ?er \<and>
    encoded_error ?er = Some (ECustom ''ErrorResponse'' (EObj ?entries)) \<and>
    decode_props [errorResponsePlugin] ?entries = Inr ?props"
    by (simp add: invariant_def)
  have built: "Inl (new_ErrorResponseImpl (own_property ?props ''status'')
          (own_property ?props ''statusText'') (own_property ?props ''data'')
          (own_property ?props ''internal'' = Bool True)) = ?err'"
    by (simp add: new_ErrorResponseImpl_def own_property_def error_toString_def)
  from unwrap_error_reconstructed [where env = ?env' and u = ?u and res = ?res
      and ers = ?ers and results = results and er = ?er and entries = ?entries
      and props = ?props and routeId = ?routeId]
  have "request_method (request ?env') = ''GET'' \<and>
    addRevalidationParam (manifest ?env') (routeModules ?env') (matches ?env')
      (stripIndexParam (request_url (request ?env'))) = Inr ?u \<and>
    fetch ?env' (singleFetchUrl ?u) None = Inr ?res \<and>
    invariant (map_option (\<lambda>ct. str_includes ct ''text/x-turbo'') (contentType ?res))
      ''Expected a text/x-turbo response'' = Inr () \<and>
    (\<forall>plugins. decode_results ?env' (body ?res) plugins = decode_encoded_results plugins ?ers) \<and>
    decode_encoded_results [errorResponsePlugin] ?ers = Inr results \<and>
    map_of ?ers ?routeId = Some ?er \<and>
    encoded_error ?er = Some (ECustom ''ErrorResponse'' (EObj ?entries)) \<and>
    decode_props [errorResponsePlugin] ?entries = Inr ?props \<longrightarrow>
      fst (singleFetch ?env' ?routeId initial_state) =
        Inl (new_ErrorResponseImpl (own_property ?props ''status'')
          (own_property ?props ''statusText'') (own_property ?props ''data'')
          (own_property ?props ''internal'' = Bool True))"
    by blast
  with hyps u all have "fst (singleFetch ?env' ?routeId initial_state) =
        Inl (new_ErrorResponseImpl (own_property ?props ''status'')
          (own_property ?props ''statusText'') (own_property ?props ''data'')
          (own_property ?props ''internal'' = Bool True))"
    by blast
  with built show "fst (singleFetch ?env' ?routeId initial_state) = ?err'" by (simp only:)
qed

end
